theory Spec2Isabelle
  imports Main
begin

text \<open>
  The library is a set of TypeScript type aliases: each alias is a function from types to
  types that the type checker evaluates.  This theory embeds the aliases of
  \<open>function/index.ts\<close> (\<open>Curry\<close>), the tuple module (\<open>TuplePush\<close>, \<open>TuplePop\<close>),
  \<open>deep/index.ts\<close> (\<open>DeepPick\<close>, \<open>DeepPartial\<close>, \<open>DeepReadonly\<close>, \<open>DeepKeys\<close>,
  \<open>DeepValue\<close>), \<open>guard/index.ts\<close> (\<open>IsAny\<close>, \<open>IsUnknown\<close>, \<open>IsExact\<close>), the union module
  (\<open>IsUnion\<close>), the object module (\<open>RenameKey\<close>, \<open>RenameKeys\<close>, \<open>ObjectPaths\<close>) and the brand module
  (\<open>Brand\<close>) as HOL functions over a datatype of type descriptors, together with the rules
  of the checker that these aliases exercise: union normalisation, \<open>keyof\<close> and indexed
  access, assignability (\<open>extends\<close>), distribution of conditional types over unions,
  homomorphic mapped types, template-literal inference and intersection reduction.  The
  checker is taken in strict mode (\<open>strictNullChecks\<close>, \<open>strictFunctionTypes\<close>, no
  \<open>exactOptionalPropertyTypes\<close>).
\<close>

section \<open>Type descriptors\<close>

text \<open>
  The descriptors are the types the aliases are applied to: \<open>any\<close>, \<open>unknown\<close>, \<open>never\<close>,
  the primitive types, literal types, object types given by their properties (name, type,
  optional flag, readonly flag), fixed tuples (a readonly flag and elements that are required
  or optional), function types with required parameters, and unions.  \<open>boolean\<close> is the union
  \<open>true | false\<close>, as in the checker.  Array types, rest elements, index signatures, optional
  parameters and generic functions are outside the model.
\<close>

datatype lit = LStr string | LNum int | LBool bool

datatype prim = PString | PNumber | PBigint | PSymbol | PNull | PUndefined

datatype ty =
    TAny
  | TUnknown
  | TNever
  | TPrim prim
  | TLit lit
  | TObj "field list"
  | TTuple bool "elem list"
  | TFn "ty list" ty
  | TUnion "ty list"
and field = Fld (fname: string) (ftype: ty) (fopt: bool) (fro: bool)
and elem = Elem (etype: ty) (eopt: bool)

subsection \<open>Unions\<close>

text \<open>
  \<open>members\<close> are the constituents a distributive conditional type is applied to, one by one:
  the members of a union, none for \<open>never\<close>, the type itself otherwise.  \<open>union_of\<close> builds a
  union as the checker normalises it: nested unions are flattened, \<open>never\<close> disappears,
  \<open>any\<close> and \<open>unknown\<close> absorb everything, duplicates are dropped, a literal is dropped when
  its primitive is present, and a union of one member is that member.
\<close>

fun members :: "ty \<Rightarrow> ty list" where
  "members (TUnion ms) = ms"
| "members TNever = []"
| "members t = [t]"

fun lit_base :: "lit \<Rightarrow> prim option" where
  "lit_base (LStr s) = Some PString"
| "lit_base (LNum n) = Some PNumber"
| "lit_base (LBool b) = None"

fun subsumed :: "ty list \<Rightarrow> ty \<Rightarrow> bool" where
  "subsumed ms (TLit l) = (case lit_base l of Some p \<Rightarrow> TPrim p \<in> set ms | None \<Rightarrow> False)"
| "subsumed ms t = False"

definition union_of :: "ty list \<Rightarrow> ty" where
  "union_of ts =
     (let ms = remdups (concat (map members ts)) in
      if TAny \<in> set ms then TAny
      else if TUnknown \<in> set ms then TUnknown
      else (case filter (\<lambda>t. \<not> subsumed ms t) ms of
              [] \<Rightarrow> TNever
            | [t] \<Rightarrow> t
            | t # u # us \<Rightarrow> TUnion (t # u # us)))"

text \<open>\<open>X | undefined\<close>, the type read from an optional property or element.\<close>

fun add_undefined :: "ty \<Rightarrow> ty" where
  "add_undefined TAny = TAny"
| "add_undefined TUnknown = TUnknown"
| "add_undefined TNever = TPrim PUndefined"
| "add_undefined (TPrim PUndefined) = TPrim PUndefined"
| "add_undefined (TUnion ms) =
     (if TPrim PUndefined \<in> set ms then TUnion ms else TUnion (ms @ [TPrim PUndefined]))"
| "add_undefined t = TUnion [t, TPrim PUndefined]"

subsection \<open>Properties, \<open>keyof\<close> and indexed access\<close>

text \<open>
  The members that the standard library declares for a type (the \<open>String\<close> interface for
  \<open>string\<close> and its literals, \<open>Array\<close> for a tuple, \<open>Function\<close> for a function type,
  \<open>Object\<close> for an object type) are not part of the repository.  They are a parameter of the
  model: \<open>declared L t\<close> lists them, and \<open>provides L t g\<close> says whether the declared member
  of \<open>t\<close> named as \<open>g\<close> satisfies the target property \<open>g\<close>.
\<close>

record stdlib =
  declared :: "ty \<Rightarrow> field list"
  provides :: "ty \<Rightarrow> field \<Rightarrow> bool"

fun find_field :: "string \<Rightarrow> field list \<Rightarrow> field option" where
  "find_field k [] = None"
| "find_field k (f # fs) = (if fname f = k then Some f else find_field k fs)"

definition read_type :: "field \<Rightarrow> ty" where
  "read_type f = (if fopt f then add_undefined (ftype f) else ftype f)"

text \<open>
  A tuple type lists its positions \<open>"0"\<close>, \<open>"1"\<close>, ... and its \<open>length\<close>, a number literal
  (a union of them when elements are optional).
\<close>

function dec :: "nat \<Rightarrow> string" where
  "dec n = (if n < 10 then [''0123456789'' ! n] else dec (n div 10) @ [''0123456789'' ! (n mod 10)])"
  by pat_completeness auto
termination
  by (relation "measure id") auto

declare dec.simps [simp del]

fun positional :: "bool \<Rightarrow> nat \<Rightarrow> elem list \<Rightarrow> field list" where
  "positional ro i [] = []"
| "positional ro i (e # es) = Fld (dec i) (etype e) (eopt e) ro # positional ro (Suc i) es"

definition length_type :: "elem list \<Rightarrow> ty" where
  "length_type es =
     (if list_ex eopt es
      then TUnion (map (\<lambda>n. TLit (LNum (int n)))
                    [length (filter (\<lambda>e. \<not> eopt e) es) ..< Suc (length es)])
      else TLit (LNum (int (length es))))"

definition tuple_fields :: "bool \<Rightarrow> elem list \<Rightarrow> field list" where
  "tuple_fields ro es = positional ro 0 es @ [Fld ''length'' (length_type es) False ro]"

text \<open>
  \<open>lookup L T k\<close> decides \<open>k extends keyof T\<close> for a string literal \<open>k\<close> and, when it holds,
  gives \<open>T[k]\<close>.  \<open>keyof any\<close> and \<open>keyof never\<close> are \<open>string | number | symbol\<close>;
  \<open>keyof unknown\<close>, \<open>keyof null\<close>, \<open>keyof undefined\<close> and \<open>keyof\<close> of a function type are
  \<open>never\<close>; the keys of a union are the keys common to its members.
\<close>

fun lookup :: "stdlib \<Rightarrow> ty \<Rightarrow> string \<Rightarrow> ty option" where
  "lookup L TAny k = Some TAny"
| "lookup L TNever k = Some TNever"
| "lookup L TUnknown k = None"
| "lookup L (TPrim PNull) k = None"
| "lookup L (TPrim PUndefined) k = None"
| "lookup L (TPrim p) k = map_option read_type (find_field k (declared L (TPrim p)))"
| "lookup L (TLit l) k = map_option read_type (find_field k (declared L (TLit l)))"
| "lookup L (TObj fs) k = map_option read_type (find_field k fs)"
| "lookup L (TTuple ro es) k =
     map_option read_type (find_field k (tuple_fields ro es @ declared L (TTuple ro es)))"
| "lookup L (TFn ps r) k = None"
| "lookup L (TUnion ms) k = map_option union_of (those (map (\<lambda>m. lookup L m k) ms))"

subsection \<open>Sizes of components\<close>

lemma find_field_mem: "find_field k fs = Some f \<Longrightarrow> f \<in> set fs"
  by (induction fs) (auto split: if_splits)

lemma size_ftype_mem: "f \<in> set fs \<Longrightarrow> size (ftype f) + 2 \<le> size_list size fs"
  by (induction fs) (auto, (case_tac f, simp)+)

lemma size_etype_mem: "e \<in> set es \<Longrightarrow> size (etype e) + 2 \<le> size_list size es"
  by (induction es) (auto, (case_tac e, simp)+)

lemma size_members: "m \<in> set (members t) \<Longrightarrow> size m \<le> size t"
  by (cases t) (auto dest: size_list_estimation' [where f = size and y = "size m"])

lemma positional_mem: "f \<in> set (positional ro i es) \<Longrightarrow> \<exists>e \<in> set es. ftype f = etype e"
  by (induction es arbitrary: i) auto

lemma size_list_ge: "2 * length es \<le> size_list size (es :: elem list)"
  by (induction es) (auto, (case_tac a, simp)+)

lemma size_length_type: "size (length_type es) \<le> size_list size es + 2"
  using size_list_ge [of es]
  by (auto simp: length_type_def size_list_conv_sum_list o_def sum_list_triv)

lemma size_tuple_field:
  "find_field k (tuple_fields ro es) = Some f \<Longrightarrow> size (ftype f) \<le> size_list size es + 2"
  using size_length_type [of es]
  by (auto simp: tuple_fields_def dest!: find_field_mem positional_mem size_etype_mem)

lemma size_zip_elems:
  "(a, b) \<in> set (zip es et) \<Longrightarrow>
     size (etype a) + 2 \<le> size_list size es \<and> size (etype b) + 2 \<le> size_list size et"
  using size_etype_mem [of a es] size_etype_mem [of b et]
  by (auto dest: set_zip_leftD set_zip_rightD)

lemma size_zip_types:
  "(a, b) \<in> set (zip qs ps) \<Longrightarrow>
     size (a :: ty) \<le> size_list size qs \<and> size (b :: ty) \<le> size_list size ps"
  using size_list_estimation' [of a qs "size a" size] size_list_estimation' [of b ps "size b" size]
  by (auto dest: set_zip_leftD set_zip_rightD)

lemma size_add_undefined: "size (add_undefined t) \<le> size t + 3"
  by (induction t rule: add_undefined.induct) auto

lemma add_undefined_not_record: "add_undefined t \<noteq> TObj gs"
  by (induction t rule: add_undefined.induct) auto

lemma read_type_measure:
  assumes "f \<in> set fs"
  shows "2 * size (read_type f) + (case read_type f of TObj gs \<Rightarrow> 1 | _ \<Rightarrow> 0)
           < 2 * size (TObj fs) + 1"
proof (cases "fopt f")
  case True
  have "size (read_type f) \<le> size (TObj fs)"
    using size_add_undefined [of "ftype f"] size_ftype_mem [OF assms] True
    by (simp add: read_type_def)
  moreover have "(case read_type f of TObj gs \<Rightarrow> 1 | _ \<Rightarrow> 0) = (0 :: nat)"
    using True add_undefined_not_record [of "ftype f"]
    by (simp add: read_type_def split: ty.splits)
  ultimately show ?thesis by simp
next
  case False
  have "(case read_type f of TObj gs \<Rightarrow> 1 | _ \<Rightarrow> 0) \<le> (1 :: nat)"
    by (simp split: ty.splits)
  moreover have "size (read_type f) + 2 \<le> size_list size fs"
    using size_ftype_mem [OF assms] False by (simp add: read_type_def)
  ultimately show ?thesis by simp
qed

section \<open>Assignability\<close>

text \<open>
  \<open>assignable L S T\<close> is the relation a conditional type \<open>S extends T ? ... : ...\<close> tests.
  Every type is assignable to \<open>any\<close> and \<open>unknown\<close>; \<open>never\<close> is assignable to every type;
  \<open>any\<close> is assignable to every type except \<open>never\<close>; a union source is assignable when
  each member is, a source is assignable to a union when it is assignable to a member;
  a literal is assignable to its primitive; an object type is assignable to an object type
  when each target property is matched by a source property (required where the target is
  required, with an assignable type; \<open>readonly\<close> plays no part) or is optional and absent;
  a target whose properties are all optional needs a property in common with a source that
  has properties; tuples are compared by arity, element by element, a readonly tuple not
  being assignable to a mutable one; function types are compared with parameters
  contravariant and the result covariant, and the source may take fewer parameters.
  Properties that a source has only through the standard library are decided by the
  parameter \<open>L\<close>.
\<close>

fun own_fields :: "ty \<Rightarrow> field list" where
  "own_fields (TObj fs) = fs"
| "own_fields (TTuple ro es) = tuple_fields ro es"
| "own_fields t = []"

definition apparent :: "stdlib \<Rightarrow> ty \<Rightarrow> field list" where
  "apparent L S = own_fields S @ declared L S"

fun callable :: "ty \<Rightarrow> bool" where
  "callable (TFn ps r) = True"
| "callable t = False"

definition weak_mismatch :: "stdlib \<Rightarrow> ty \<Rightarrow> field list \<Rightarrow> bool" where
  "weak_mismatch L S gs =
     (gs \<noteq> [] \<and> list_all fopt gs \<and> (apparent L S \<noteq> [] \<or> callable S) \<and>
      list_all (\<lambda>g. find_field (fname g) (apparent L S) = None) gs)"

function assignable :: "stdlib \<Rightarrow> ty \<Rightarrow> ty \<Rightarrow> bool" where
  "assignable L S T =
     (if T = TAny \<or> T = TUnknown \<or> S = TNever then True
      else if T = TNever then False
      else if S = TAny then True
      else if S = TUnknown then False
      else (case S of
          TUnion ms \<Rightarrow> list_all (\<lambda>m. assignable L m T) ms
        | _ \<Rightarrow>
          (case T of
             TUnion ns \<Rightarrow> list_ex (\<lambda>n. assignable L S n) ns
           | TPrim q \<Rightarrow>
               (case S of TPrim p \<Rightarrow> p = q | TLit l \<Rightarrow> lit_base l = Some q | _ \<Rightarrow> False)
           | TLit l' \<Rightarrow> (case S of TLit l \<Rightarrow> l = l' | _ \<Rightarrow> False)
           | TObj gs \<Rightarrow>
               (if S = TPrim PNull \<or> S = TPrim PUndefined \<or> weak_mismatch L S gs then False
                else list_all
                  (\<lambda>g. case find_field (fname g) (own_fields S) of
                         Some f \<Rightarrow>
                           (if fopt f then fopt g else True) \<and>
                           (if fopt g
                            then list_all
                                   (\<lambda>m. m = TPrim PUndefined \<or> m = TAny \<or> assignable L m (ftype g))
                                   (members (ftype f))
                            else assignable L (ftype f) (ftype g))
                       | None \<Rightarrow>
                           (case find_field (fname g) (declared L S) of
                              None \<Rightarrow> fopt g
                            | Some d \<Rightarrow> provides L S g))
                  gs)
           | TTuple rt et \<Rightarrow>
               (case S of
                  TTuple rs es \<Rightarrow>
                    (if rs then rt else True) \<and> length es \<le> length et \<and>
                    list_all eopt (drop (length es) et) \<and>
                    list_all
                      (\<lambda>(s, t).
                         (if eopt s then eopt t else True) \<and>
                         (if eopt t
                          then list_all
                                 (\<lambda>m. m = TPrim PUndefined \<or> m = TAny \<or> assignable L m (etype t))
                                 (members (etype s))
                          else assignable L (etype s) (etype t)))
                      (zip es et)
                | _ \<Rightarrow> False)
           | TFn qs r' \<Rightarrow>
               (case S of
                  TFn ps r \<Rightarrow>
                    length ps \<le> length qs \<and>
                    list_all (\<lambda>(q, p). assignable L q p) (zip qs ps) \<and>
                    assignable L r r'
                | _ \<Rightarrow> False)
           | _ \<Rightarrow> False)))"
  by pat_completeness auto
termination
proof (relation "measure (\<lambda>(L, S, T). size S + size T)", goal_cases)
  case 1
  show ?case by simp
qed (auto dest!: size_zip_elems size_zip_types find_field_mem size_ftype_mem size_members
      size_tuple_field
      dest: size_list_estimation' [where f = size, OF _ order_refl])

declare assignable.simps [simp del]

text \<open>The literal types \<open>true\<close> and \<open>false\<close>, and the one-element tuple type \<open>[T]\<close>.\<close>

definition TTrue :: ty where
  "TTrue = TLit (LBool True)"

definition TFalse :: ty where
  "TFalse = TLit (LBool False)"

definition single :: "ty \<Rightarrow> ty" where
  "single T = TTuple False [Elem T False]"

section \<open>Intersections\<close>

text \<open>
  \<open>intersection A B\<close> is \<open>A & B\<close> as the checker reduces it, given as the list of the
  constituents of a union: \<open>Whole t\<close> where the intersection reduces to the type \<open>t\<close>,
  \<open>Both a b\<close> where it stays an intersection.  Intersection distributes over unions;
  \<open>never\<close> absorbs, then \<open>any\<close>; \<open>unknown\<close> is neutral; a literal meets its primitive in the
  literal; distinct primitives, distinct literals, and \<open>null\<close> or \<open>undefined\<close> with an object
  type meet in \<open>never\<close>; a primitive or literal absorbs the empty object type and stays an
  intersection with any other object type; two object types stay an intersection unless a
  property that is required in one of them has different types, one of them a literal type
  and neither \<open>never\<close>, that meet in \<open>never\<close>: then the whole intersection is \<open>never\<close>.
\<close>

datatype meet = Whole ty | Both ty ty

fun unit_type :: "ty \<Rightarrow> bool" where
  "unit_type (TLit l) = True"
| "unit_type (TPrim PNull) = True"
| "unit_type (TPrim PUndefined) = True"
| "unit_type t = False"

fun literal_type :: "ty \<Rightarrow> bool" where
  "literal_type (TUnion ms) = list_all unit_type ms"
| "literal_type t = unit_type t"

fun meet_simple :: "ty \<Rightarrow> ty \<Rightarrow> meet list" where
  "meet_simple TAny b = [Whole TAny]"
| "meet_simple a TAny = [Whole TAny]"
| "meet_simple TUnknown b = [Whole b]"
| "meet_simple a TUnknown = [Whole a]"
| "meet_simple (TPrim p) (TPrim q) = (if p = q then [Whole (TPrim p)] else [])"
| "meet_simple (TPrim p) (TLit l) = (if lit_base l = Some p then [Whole (TLit l)] else [])"
| "meet_simple (TLit l) (TPrim p) = (if lit_base l = Some p then [Whole (TLit l)] else [])"
| "meet_simple (TLit l) (TLit l') = (if l = l' then [Whole (TLit l)] else [])"
| "meet_simple (TPrim p) b =
     (if p = PNull \<or> p = PUndefined then []
      else if b = TObj [] then [Whole (TPrim p)] else [Both (TPrim p) b])"
| "meet_simple a (TPrim p) =
     (if p = PNull \<or> p = PUndefined then []
      else if a = TObj [] then [Whole (TPrim p)] else [Both a (TPrim p)])"
| "meet_simple (TLit l) b = (if b = TObj [] then [Whole (TLit l)] else [Both (TLit l) b])"
| "meet_simple a (TLit l) = (if a = TObj [] then [Whole (TLit l)] else [Both a (TLit l)])"
| "meet_simple a b = [Both a b]"

definition clash :: "(ty \<Rightarrow> ty \<Rightarrow> meet list) \<Rightarrow> field list \<Rightarrow> field list \<Rightarrow> bool" where
  "clash meet fs gs =
     list_ex
       (\<lambda>f. case find_field (fname f) gs of
              None \<Rightarrow> False
            | Some g \<Rightarrow>
                \<not> (fopt f \<and> fopt g) \<and> ftype f \<noteq> ftype g \<and>
                (literal_type (ftype f) \<or> literal_type (ftype g)) \<and>
                ftype f \<noteq> TNever \<and> ftype g \<noteq> TNever \<and>
                meet (ftype f) (ftype g) = [])
       fs"

fun meet_atom :: "(ty \<Rightarrow> ty \<Rightarrow> meet list) \<Rightarrow> ty \<Rightarrow> ty \<Rightarrow> meet list" where
  "meet_atom meet (TObj fs) (TObj gs) =
     (if clash meet fs gs then [] else [Both (TObj fs) (TObj gs)])"
| "meet_atom meet a b = meet_simple a b"

lemma clash_cong:
  assumes "\<And>x y. size x < size (TObj fs) \<Longrightarrow> size y < size (TObj gs) \<Longrightarrow> meet x y = meet' x y"
  shows "clash meet fs gs = clash meet' fs gs"
proof -
  have "meet (ftype f) (ftype g) = meet' (ftype f) (ftype g)"
    if "f \<in> set fs" "find_field (fname f) gs = Some g" for f g
  proof -
    from that(2) have "g \<in> set gs" by (rule find_field_mem)
    with that(1) show ?thesis
      using size_ftype_mem [of f fs] size_ftype_mem [of g gs] by (intro assms) simp_all
  qed
  then show ?thesis
    unfolding clash_def by (intro list_ex_cong refl) (simp split: option.splits)
qed

lemma meet_atom_cong [fundef_cong]:
  assumes "a = a'" "b = b'"
    and "\<And>x y. size x < size a' \<Longrightarrow> size y < size b' \<Longrightarrow> meet x y = meet' x y"
  shows "meet_atom meet a b = meet_atom meet' a' b'"
proof -
  have "meet_atom meet a' b' = meet_atom meet' a' b'"
  proof (cases a')
    case a: (TObj fs)
    show ?thesis
    proof (cases b')
      case (TObj gs)
      with a assms(3) show ?thesis
        using clash_cong [of fs gs meet meet'] by simp
    qed (simp_all add: a)
  qed simp_all
  with assms(1,2) show ?thesis by simp
qed

function intersection :: "ty \<Rightarrow> ty \<Rightarrow> meet list" where
  "intersection A B =
     (let atoms = concat (map (\<lambda>a. concat (map (\<lambda>b. meet_atom intersection a b) (members B)))
                          (members A))
      in if Whole TAny \<in> set atoms then [Whole TAny] else remdups atoms)"
  by pat_completeness auto
termination
proof (relation "measure (\<lambda>(A, B). size A + size B)", goal_cases)
  case 1
  show ?case by simp
next
  case (2 A B a b x y)
  then show ?case
    using size_members [of a A] size_members [of b B] by simp
qed

declare intersection.simps [simp del]

text \<open>
  Assignability to an intersection (to each of its parts) and from one (from one of its
  parts, or property by property from the properties of both parts).
\<close>

fun to_meet :: "stdlib \<Rightarrow> ty \<Rightarrow> meet \<Rightarrow> bool" where
  "to_meet L s (Whole t) = assignable L s t"
| "to_meet L s (Both a b) = (assignable L s a \<and> assignable L s b)"

definition to_meets :: "stdlib \<Rightarrow> ty \<Rightarrow> meet list \<Rightarrow> bool" where
  "to_meets L S ms =
     list_all (\<lambda>s. (s = TAny \<and> ms \<noteq> []) \<or> list_ex (to_meet L s) ms) (members S)"

definition prop_ok :: "stdlib \<Rightarrow> field \<Rightarrow> field \<Rightarrow> bool" where
  "prop_ok L f g =
     ((if fopt f then fopt g else True) \<and>
      (if fopt g
       then list_all (\<lambda>m. m = TPrim PUndefined \<or> m = TAny \<or> assignable L m (ftype g))
              (members (ftype f))
       else assignable L (ftype f) (ftype g)))"

definition side_ok :: "stdlib \<Rightarrow> ty \<Rightarrow> field \<Rightarrow> field \<Rightarrow> bool" where
  "side_ok L a f g =
     (case find_field (fname g) (own_fields a) of
        Some f' \<Rightarrow> prop_ok L f' g
      | None \<Rightarrow> provides L a g)"

function from_meet :: "stdlib \<Rightarrow> meet \<Rightarrow> ty \<Rightarrow> bool" where
  "from_meet L (Whole s) T = assignable L s T"
| "from_meet L (Both a b) T =
     (if T = TAny \<or> T = TUnknown then True
      else (case T of
          TUnion ns \<Rightarrow> list_ex (\<lambda>n. from_meet L (Both a b) n) ns
        | TObj gs \<Rightarrow>
            assignable L a T \<or> assignable L b T \<or>
            list_all
              (\<lambda>g. case find_field (fname g) (apparent L a) of
                     None \<Rightarrow>
                       (case find_field (fname g) (apparent L b) of
                          None \<Rightarrow> fopt g
                        | Some f' \<Rightarrow> side_ok L b f' g)
                   | Some f \<Rightarrow>
                       (case find_field (fname g) (apparent L b) of
                          None \<Rightarrow> side_ok L a f g
                        | Some f' \<Rightarrow>
                            (if fopt f \<and> fopt f' then fopt g else True) \<and>
                            list_all
                              (\<lambda>m. (fopt g \<and> (m = Whole (TPrim PUndefined) \<or> m = Whole TAny)) \<or>
                                   from_meet L m (ftype g))
                              (intersection (ftype f) (ftype f'))))
              gs
        | _ \<Rightarrow> assignable L a T \<or> assignable L b T))"
  by pat_completeness auto
termination
proof (relation "measure (\<lambda>(L, m, T). size T)", goal_cases)
  case 1
  show ?case by simp
qed (auto dest!: size_ftype_mem dest: size_list_estimation' [where f = size, OF _ order_refl])

declare from_meet.simps(2) [simp del]

fun meet_to_meet :: "stdlib \<Rightarrow> meet \<Rightarrow> meet \<Rightarrow> bool" where
  "meet_to_meet L s (Whole t) = from_meet L s t"
| "meet_to_meet L s (Both c d) = (from_meet L s c \<and> from_meet L s d)"

definition compatible :: "stdlib \<Rightarrow> meet list \<Rightarrow> meet list \<Rightarrow> bool" where
  "compatible L src tgt = list_all (\<lambda>s. list_ex (meet_to_meet L s) tgt) src"

section \<open>The aliases\<close>

subsection \<open>\<open>function/index.ts\<close>: \<open>Curry\<close>\<close>

text \<open>
  \<^verbatim>\<open>type Curry<T extends Fn> = T extends (...args: infer Args) => infer Return
     ? Args extends [infer First, ...infer Rest]
       ? (arg: First) => Curry<(...args: Rest) => Return>
       : () => Return
     : never;\<close>
  The outer conditional distributes over a union \<open>T\<close>.  For \<open>any\<close> nothing is inferred,
  \<open>Args\<close> is \<open>unknown[]\<close> and \<open>Return\<close> is \<open>unknown\<close>, so the result is \<open>() => unknown\<close>.
\<close>

fun Curry :: "ty \<Rightarrow> ty" where
  "Curry (TFn [] Return) = TFn [] Return"
| "Curry (TFn (First # Rest) Return) = TFn [First] (Curry (TFn Rest Return))"
| "Curry (TUnion ms) = union_of (map Curry ms)"
| "Curry TAny = TFn [] TUnknown"
| "Curry TNever = TNever"
| "Curry t = TNever"

subsection \<open>The tuple module: \<open>TuplePush\<close> and \<open>TuplePop\<close>\<close>

text \<open>
  \<^verbatim>\<open>type TuplePush<T extends readonly any[], V> = [...T, V];
  type TuplePop<T extends readonly any[]> = T extends readonly [...infer R, any] ? R : [];\<close>
  A spread makes a mutable tuple; an optional element in front of the required \<open>V\<close> becomes
  a required element that admits \<open>undefined\<close>.  \<open>TuplePop\<close> matches a tuple whose last
  element is required, and the inferred \<open>R\<close> is a mutable tuple.  Both distribute over
  unions.  \<open>None\<close> stands for an argument outside the model: an array type, \<open>any\<close>, or a
  type that the constraint \<open>T extends readonly any[]\<close> rejects.
\<close>

fun required :: "elem \<Rightarrow> elem" where
  "required (Elem t opt) = Elem (if opt then add_undefined t else t) False"

fun TuplePush :: "ty \<Rightarrow> ty \<Rightarrow> ty option" where
  "TuplePush (TTuple ro es) V = Some (TTuple False (map required es @ [Elem V False]))"
| "TuplePush TNever V = Some TNever"
| "TuplePush (TUnion ms) V = map_option union_of (those (map (\<lambda>m. TuplePush m V) ms))"
| "TuplePush t V = None"

fun TuplePop :: "ty \<Rightarrow> ty option" where
  "TuplePop (TTuple ro es) =
     Some (if es \<noteq> [] \<and> \<not> eopt (last es) then TTuple False (butlast es) else TTuple False [])"
| "TuplePop TNever = Some TNever"
| "TuplePop (TUnion ms) = map_option union_of (those (map TuplePop ms))"
| "TuplePop t = None"

subsection \<open>\<open>deep/index.ts\<close>: \<open>DeepValue\<close> and \<open>DeepPick\<close>\<close>

text \<open>
  The pattern \<^verbatim>\<open>`${infer First}.${infer Rest}`\<close> splits a string literal at its first dot.
\<close>

fun split_dot :: "string \<Rightarrow> (string \<times> string) option" where
  "split_dot [] = None"
| "split_dot (c # cs) =
     (if c = CHR ''.'' then Some ([], cs)
      else map_option (\<lambda>(First, Rest). (c # First, Rest)) (split_dot cs))"

lemma split_dot_shorter: "split_dot p = Some (a, b) \<Longrightarrow> length b < length p"
  by (induction p arbitrary: a) (auto split: if_splits)

text \<open>
  \<^verbatim>\<open>type DeepValue<T, Path extends string> = Path extends `${infer Key}.${infer Rest}`
     ? Key extends keyof T ? DeepValue<T[Key], Rest> : never
     : Path extends keyof T ? T[Path] : never;\<close>
  The path is one string literal (the alias distributes over a union of paths).
\<close>

function DeepValue :: "stdlib \<Rightarrow> ty \<Rightarrow> string \<Rightarrow> ty" where
  "DeepValue L T Path =
     (case split_dot Path of
        Some (Key, Rest) \<Rightarrow>
          (case lookup L T Key of
             Some t \<Rightarrow> DeepValue L t Rest
           | None \<Rightarrow> TNever)
      | None \<Rightarrow>
          (case lookup L T Path of
             Some t \<Rightarrow> t
           | None \<Rightarrow> TNever))"
  by pat_completeness auto
termination
  by (relation "measure (\<lambda>(L, T, p). length p)") (auto dest: split_dot_shorter)

declare DeepValue.simps [simp del]

text \<open>
  \<^verbatim>\<open>type DeepPick<T, K extends string> = K extends `${infer First}.${infer Rest}`
     ? First extends keyof T
       ? { [P in First]: DeepPick<T[First], Rest> }
       : Record<never, never>
     : K extends keyof T ? { [P in K]: T[P] } : Record<never, never>;\<close>
  The mapped types range over a key that is not declared as \<open>keyof T\<close>, so they copy no
  modifier: the property is required and mutable, and its type is the type read from \<open>T\<close>.
\<close>

function DeepPick :: "stdlib \<Rightarrow> ty \<Rightarrow> string \<Rightarrow> ty" where
  "DeepPick L T K =
     (case split_dot K of
        Some (First, Rest) \<Rightarrow>
          (case lookup L T First of
             Some t \<Rightarrow> TObj [Fld First (DeepPick L t Rest) False False]
           | None \<Rightarrow> TObj [])
      | None \<Rightarrow>
          (case lookup L T K of
             Some t \<Rightarrow> TObj [Fld K t False False]
           | None \<Rightarrow> TObj []))"
  by pat_completeness auto
termination
  by (relation "measure (\<lambda>(L, T, p). length p)") (auto dest: split_dot_shorter)

declare DeepPick.simps [simp del]

subsection \<open>\<open>deep/index.ts\<close>: \<open>DeepPartial\<close> and \<open>DeepReadonly\<close>\<close>

text \<open>
  \<open>extends_object t\<close> is \<open>t extends object\<close> for a constituent \<open>t\<close> of a union: object
  types, tuples and function types are object types, primitives, literals and \<open>unknown\<close> are
  not.  \<open>hom_mapped opt ro F t\<close> is the homomorphic mapped type
  \<open>{ [K in keyof T]: F<T[K]> }\<close> at \<open>T = t\<close> with its modifiers: over an object type it maps
  each property, over a tuple each element, giving a tuple; a function type has no keys and
  gives the empty object type.  The template is applied to the declared type of a property;
  the templates below distribute over unions and leave \<open>undefined\<close> unchanged, so this is
  the type the checker gives the (again optional) property.
\<close>

fun extends_object :: "ty \<Rightarrow> bool" where
  "extends_object (TObj fs) = True"
| "extends_object (TTuple ro es) = True"
| "extends_object (TFn ps r) = True"
| "extends_object t = False"

fun hom_mapped :: "(bool \<Rightarrow> bool) \<Rightarrow> (bool \<Rightarrow> bool) \<Rightarrow> (ty \<Rightarrow> ty) \<Rightarrow> ty \<Rightarrow> ty" where
  "hom_mapped opt ro F (TObj fs) =
     TObj (map (\<lambda>f. Fld (fname f) (F (ftype f)) (opt (fopt f)) (ro (fro f))) fs)"
| "hom_mapped opt ro F (TTuple r es) =
     TTuple (ro r) (map (\<lambda>e. Elem (F (etype e)) (opt (eopt e))) es)"
| "hom_mapped opt ro F (TFn ps r) = TObj []"
| "hom_mapped opt ro F TUnknown = TObj []"
| "hom_mapped opt ro F t = t"

lemma hom_mapped_cong [fundef_cong]:
  assumes "opt = opt'" "ro = ro'" "t = t'"
    and "\<And>x. size x < size t' \<Longrightarrow> F x = G x"
  shows "hom_mapped opt ro F t = hom_mapped opt' ro' G t'"
proof -
  have "hom_mapped opt' ro' F t' = hom_mapped opt' ro' G t'"
  proof (cases t')
    case (TObj fs)
    have "\<And>f. f \<in> set fs \<Longrightarrow> F (ftype f) = G (ftype f)"
      using assms(4) TObj by (auto dest!: size_ftype_mem)
    then show ?thesis using TObj by simp
  next
    case (TTuple r es)
    have "\<And>e. e \<in> set es \<Longrightarrow> F (etype e) = G (etype e)"
      using assms(4) TTuple by (auto dest!: size_etype_mem)
    then show ?thesis using TTuple by simp
  qed simp_all
  then show ?thesis using assms(1-3) by simp
qed

text \<open>
  \<^verbatim>\<open>type DeepPartial<T> = T extends object ? { [K in keyof T]?: DeepPartial<T[K]> } : T;
  type DeepReadonly<T> = T extends object ? { readonly [K in keyof T]: DeepReadonly<T[K]> } : T;\<close>
  Both distribute over a union \<open>T\<close>; at \<open>any\<close> a conditional type gives the union of its
  branches, which is \<open>any\<close>.
\<close>

function DeepPartial :: "ty \<Rightarrow> ty" where
  "DeepPartial T =
     union_of (map (\<lambda>t. if t = TAny then TAny
                        else if extends_object t then hom_mapped (\<lambda>q. True) (\<lambda>r. r) DeepPartial t
                        else t)
                  (members T))"
  by pat_completeness auto
termination
  by (relation "measure size") (auto dest: size_members)

function DeepReadonly :: "ty \<Rightarrow> ty" where
  "DeepReadonly T =
     union_of (map (\<lambda>t. if t = TAny then TAny
                        else if extends_object t then hom_mapped (\<lambda>q. q) (\<lambda>r. True) DeepReadonly t
                        else t)
                  (members T))"
  by pat_completeness auto
termination
  by (relation "measure size") (auto dest: size_members)

declare DeepPartial.simps [simp del] DeepReadonly.simps [simp del]

subsection \<open>\<open>guard/index.ts\<close>: \<open>IsAny\<close>, \<open>IsUnknown\<close>, \<open>IsExact\<close>\<close>

text \<open>
  \<^verbatim>\<open>type IsAny<T> = 0 extends 1 & T ? true : false;
  type IsUnknown<T> = [T] extends [unknown] ? (IsAny<T> extends false ? true : false) : false;
  type IsExact<A, B> = [A] extends [B] ? ([B] extends [A] ? true : false) : false;\<close>
  None of the checked types is a bare type parameter, so nothing distributes.
\<close>

definition IsAny :: "stdlib \<Rightarrow> ty \<Rightarrow> ty" where
  "IsAny L T =
     (if to_meets L (TLit (LNum 0)) (intersection (TLit (LNum 1)) T) then TTrue else TFalse)"

definition IsUnknown :: "stdlib \<Rightarrow> ty \<Rightarrow> ty" where
  "IsUnknown L T =
     (if assignable L (single T) (single TUnknown)
      then (if assignable L (IsAny L T) TFalse then TTrue else TFalse)
      else TFalse)"

definition IsExact :: "stdlib \<Rightarrow> ty \<Rightarrow> ty \<Rightarrow> ty" where
  "IsExact L A B =
     (if assignable L (single A) (single B)
      then (if assignable L (single B) (single A) then TTrue else TFalse)
      else TFalse)"

subsection \<open>The union module: \<open>IsUnion\<close>\<close>

text \<open>
  \<^verbatim>\<open>type IsUnion<T> = [T] extends [infer U]
     ? U extends any ? ([U] extends [T] ? false : true) : never
     : false;\<close>
  \<open>[T] extends [infer U]\<close> holds for every \<open>T\<close> and binds \<open>U\<close> to \<open>T\<close>.  The inner
  conditional has the bare type parameter \<open>U\<close> as its checked type, so it distributes over the
  members of \<open>T\<close>: inside, \<open>U\<close> is one member and \<open>T\<close> is still the whole type.
\<close>

definition IsUnion :: "stdlib \<Rightarrow> ty \<Rightarrow> ty" where
  "IsUnion L T =
     union_of (map (\<lambda>U. if assignable L (single U) (single T) then TFalse else TTrue) (members T))"

subsection \<open>The object module: \<open>RenameKey\<close>\<close>

text \<open>
  \<^verbatim>\<open>type RenameKey<T, From extends keyof T, To extends string> = To extends keyof T
     ? T
     : Omit<T, From> & { [K in To]: T[From] };\<close>
  \<open>T\<close> is an object type, given by its properties; \<open>From\<close> and \<open>To\<close> are string literals.
  \<open>Exclude\<close>, \<open>Pick\<close> and \<open>Omit\<close> are the standard aliases
  \<^verbatim>\<open>Exclude<T, U> = T extends U ? never : T\<close>, \<^verbatim>\<open>Pick<T, K extends keyof T> = { [P in K]: T[P] }\<close>
  (homomorphic: it keeps the modifiers) and \<^verbatim>\<open>Omit<T, K> = Pick<T, Exclude<keyof T, K>>\<close>, over
  lists of keys.  The mapped type over \<open>To\<close> is not homomorphic: its property is required and
  mutable, with the type read from \<open>T[From]\<close>.  The intersection of the two object types,
  which have no property name in common, is given by the properties of both.  \<open>None\<close>: the
  checker rejects the use, \<open>From\<close> not being a key of \<open>T\<close>.
\<close>

definition Exclude :: "string list \<Rightarrow> string list \<Rightarrow> string list" where
  "Exclude T U = filter (\<lambda>t. t \<notin> set U) T"

definition Pick :: "field list \<Rightarrow> string list \<Rightarrow> field list" where
  "Pick T K = concat (map (\<lambda>P. case find_field P T of Some f \<Rightarrow> [f] | None \<Rightarrow> []) K)"

definition Omit :: "field list \<Rightarrow> string list \<Rightarrow> field list" where
  "Omit T K = Pick T (Exclude (map fname T) K)"

definition RenameKey :: "field list \<Rightarrow> string \<Rightarrow> string \<Rightarrow> ty option" where
  "RenameKey T From To =
     (case find_field From T of
        None \<Rightarrow> None
      | Some f \<Rightarrow>
          Some (if To \<in> set (map fname T) then TObj T
                else TObj (Omit T [From] @ [Fld To (read_type f) False False])))"

text \<open>
  \<^verbatim>\<open>type RenameKeys<T, Map extends Record<string, string>> = {
     [K in keyof T as K extends keyof Map ? Map[K & string] : K]: T[K];
   };\<close>
  The sibling of \<open>RenameKey\<close> in the same module.  \<open>Map\<close> is an object type whose properties
  have string literal types, given as the list of its (key, literal) pairs.  A mapped type
  over \<open>keyof T\<close> with an \<open>as\<close> clause takes the modifiers of each property from the property
  of \<open>T\<close> it is made from.  \<open>None\<close>: two properties get the same new name, which the model
  does not describe.
\<close>

definition RenameKeys :: "field list \<Rightarrow> (string \<times> string) list \<Rightarrow> ty option" where
  "RenameKeys T Map =
     (let renamed = map (\<lambda>f. Fld (case map_of Map (fname f) of Some n \<Rightarrow> n | None \<Rightarrow> fname f)
                                 (ftype f) (fopt f) (fro f)) T
      in if distinct (map fname renamed) then Some (TObj renamed) else None)"

subsection \<open>\<open>deep/index.ts\<close> and the object module: \<open>DeepKeys\<close> and \<open>ObjectPaths\<close>\<close>

text \<open>
  \<^verbatim>\<open>type DeepKeys<T, Prefix extends string = ""> = {
     [K in keyof T]-?: K extends string
       ? Prefix extends ""
         ? K | (T[K] extends object ? DeepKeys<T[K], K> : never)
         : `${Prefix}.${K}` | (T[K] extends object ? DeepKeys<T[K], `${Prefix}.${K}`> : never)
       : never;
   }[keyof T];
  type ObjectPaths<T, Prefix extends string = ""> = {
     [K in keyof T]-?: K extends string
       ? Prefix extends ""
         ? K | ObjectPaths<T[K], K>
         : `${Prefix}.${K}` | ObjectPaths<T[K], `${Prefix}.${K}`>
       : never;
   }[keyof T];\<close>
  Over an object type the result is the union, over its properties \<open>K\<close>, of the path of \<open>K\<close>
  and the paths below it; \<open>T[K]\<close> is the type read from the property and
  \<open>T[K] extends object\<close> is tested on that type as a whole (\<open>is_object\<close>).  The mapped type is
  homomorphic: over a primitive or literal it is that type itself, which is then indexed by
  all its keys (\<open>values_of\<close>: the types of the members the standard library declares, and
  \<open>string\<close> for the numeric index of a string); over a function type, \<open>unknown\<close> and \<open>never\<close>
  the result is \<open>never\<close>; over a union it is indexed by the keys common to the members,
  which are none when a member has no key.  \<open>None\<close> stands for a type outside the model: a
  property of type \<open>any\<close>, a tuple, or a union whose members all have keys.
\<close>

definition join_path :: "string \<Rightarrow> string \<Rightarrow> string" where
  "join_path Prefix K = (if Prefix = [] then K else Prefix @ ''.'' @ K)"

fun is_object :: "ty \<Rightarrow> bool" where
  "is_object TNever = True"
| "is_object (TUnion ms) = list_all extends_object ms"
| "is_object t = extends_object t"

fun keyless :: "ty \<Rightarrow> bool" where
  "keyless TUnknown = True"
| "keyless (TPrim PNull) = True"
| "keyless (TPrim PUndefined) = True"
| "keyless (TFn ps r) = True"
| "keyless (TObj []) = True"
| "keyless t = False"

fun string_like :: "ty \<Rightarrow> bool" where
  "string_like (TPrim PString) = True"
| "string_like (TLit (LStr s)) = True"
| "string_like t = False"

definition values_of :: "stdlib \<Rightarrow> ty \<Rightarrow> ty" where
  "values_of L t =
     (if t = TPrim PNull \<or> t = TPrim PUndefined then TNever
      else union_of ((if string_like t then [TPrim PString] else []) @ map read_type (declared L t)))"

function DeepKeys :: "stdlib \<Rightarrow> ty \<Rightarrow> string \<Rightarrow> ty option" where
  "DeepKeys L T Prefix =
     (case T of
        TObj fs \<Rightarrow>
          map_option union_of (those (map (\<lambda>f.
            map_option (\<lambda>sub. union_of [TLit (LStr (join_path Prefix (fname f))), sub])
              (if read_type f = TAny then None
               else if is_object (read_type f)
                    then DeepKeys L (read_type f) (join_path Prefix (fname f))
                    else Some TNever)) fs))
      | TUnion ms \<Rightarrow> (if list_ex keyless ms then Some TNever else None)
      | TAny \<Rightarrow> None
      | TTuple ro es \<Rightarrow> None
      | TNever \<Rightarrow> Some TNever
      | TUnknown \<Rightarrow> Some TNever
      | TFn ps r \<Rightarrow> Some TNever
      | _ \<Rightarrow> Some (values_of L T))"
  by pat_completeness auto
termination
  by (relation "measure (\<lambda>(L, T, P). 2 * size T + (case T of TObj gs \<Rightarrow> 1 | _ \<Rightarrow> 0))")
    (auto dest: read_type_measure)

function ObjectPaths :: "stdlib \<Rightarrow> ty \<Rightarrow> string \<Rightarrow> ty option" where
  "ObjectPaths L T Prefix =
     (case T of
        TObj fs \<Rightarrow>
          map_option union_of (those (map (\<lambda>f.
            map_option (\<lambda>sub. union_of [TLit (LStr (join_path Prefix (fname f))), sub])
              (if read_type f = TAny then None
               else ObjectPaths L (read_type f) (join_path Prefix (fname f)))) fs))
      | TUnion ms \<Rightarrow> (if list_ex keyless ms then Some TNever else None)
      | TAny \<Rightarrow> None
      | TTuple ro es \<Rightarrow> None
      | TNever \<Rightarrow> Some TNever
      | TUnknown \<Rightarrow> Some TNever
      | TFn ps r \<Rightarrow> Some TNever
      | _ \<Rightarrow> Some (values_of L T))"
  by pat_completeness auto
termination
  by (relation "measure (\<lambda>(L, T, P). 2 * size T + (case T of TObj gs \<Rightarrow> 1 | _ \<Rightarrow> 0))")
    (auto dest: read_type_measure)

declare DeepKeys.simps [simp del] ObjectPaths.simps [simp del]

subsection \<open>The brand module: \<open>Brand\<close>\<close>

text \<open>
  \<^verbatim>\<open>type Brand<T, Name extends string> = T & { readonly __brand: Name };\<close>
\<close>

definition Brand :: "ty \<Rightarrow> string \<Rightarrow> meet list" where
  "Brand T Name = intersection T (TObj [Fld ''__brand'' (TLit (LStr Name)) False True])"

section \<open>Notions used to state the properties\<close>

text \<open>
  The segments of a dot-path; whether walking them through a type meets a segment that is
  not a key of the type reached; the segments walked before that; and the object type that
  nests a type under a list of keys.
\<close>

function segments :: "string \<Rightarrow> string list" where
  "segments p =
     (case split_dot p of
        None \<Rightarrow> [p]
      | Some (First, Rest) \<Rightarrow> First # segments Rest)"
  by pat_completeness auto
termination
  by (relation "measure length") (auto dest: split_dot_shorter)

declare segments.simps [simp del]

fun missing :: "stdlib \<Rightarrow> ty \<Rightarrow> string list \<Rightarrow> bool" where
  "missing L T [] = False"
| "missing L T (k # ks) = (case lookup L T k of None \<Rightarrow> True | Some t \<Rightarrow> missing L t ks)"

fun resolved :: "stdlib \<Rightarrow> ty \<Rightarrow> string list \<Rightarrow> string list" where
  "resolved L T [] = []"
| "resolved L T (k # ks) = (case lookup L T k of None \<Rightarrow> [] | Some t \<Rightarrow> k # resolved L t ks)"

fun nest :: "string list \<Rightarrow> ty \<Rightarrow> ty" where
  "nest [] X = X"
| "nest (k # ks) X = TObj [Fld k (nest ks X) False False]"

text \<open>
  Descriptors as the checker builds them: the members of a union are neither unions nor
  \<open>never\<close>, at every depth (\<open>flat\<close>).  \<open>all_optional\<close>: every field of every record reached
  through fields, tuple elements and union members is optional; \<open>all_readonly\<close>: every such
  field, and every tuple reached, is readonly.
\<close>

fun constituent :: "ty \<Rightarrow> bool" where
  "constituent (TUnion ms) = False"
| "constituent TNever = False"
| "constituent t = True"

function flat :: "ty \<Rightarrow> bool" where
  "flat T =
     (case T of
        TObj fs \<Rightarrow> list_all (\<lambda>f. flat (ftype f)) fs
      | TTuple ro es \<Rightarrow> list_all (\<lambda>e. flat (etype e)) es
      | TUnion ms \<Rightarrow> list_all (\<lambda>m. constituent m \<and> flat m) ms
      | _ \<Rightarrow> True)"
  by pat_completeness auto
termination
  by (relation "measure size")
    (auto dest!: size_ftype_mem size_etype_mem
      dest: size_list_estimation' [where f = size, OF _ order_refl])

function all_optional :: "ty \<Rightarrow> bool" where
  "all_optional T =
     (case T of
        TObj fs \<Rightarrow> list_all (\<lambda>f. fopt f \<and> all_optional (ftype f)) fs
      | TTuple ro es \<Rightarrow> list_all (\<lambda>e. all_optional (etype e)) es
      | TUnion ms \<Rightarrow> list_all all_optional ms
      | _ \<Rightarrow> True)"
  by pat_completeness auto
termination
  by (relation "measure size")
    (auto dest!: size_ftype_mem size_etype_mem
      dest: size_list_estimation' [where f = size, OF _ order_refl])

function all_readonly :: "ty \<Rightarrow> bool" where
  "all_readonly T =
     (case T of
        TObj fs \<Rightarrow> list_all (\<lambda>f. fro f \<and> all_readonly (ftype f)) fs
      | TTuple ro es \<Rightarrow> ro \<and> list_all (\<lambda>e. all_readonly (etype e)) es
      | TUnion ms \<Rightarrow> list_all all_readonly ms
      | _ \<Rightarrow> True)"
  by pat_completeness auto
termination
  by (relation "measure size")
    (auto dest!: size_ftype_mem size_etype_mem
      dest: size_list_estimation' [where f = size, OF _ order_refl])

declare flat.simps [simp del] all_optional.simps [simp del] all_readonly.simps [simp del]

text \<open>
  \<open>tag\<close> is the object type a brand adds.  \<open>brandable\<close>: a constituent that is not \<open>any\<close>,
  \<open>null\<close> or \<open>undefined\<close> and has no property named \<open>__brand\<close>, of its own or from the
  standard library; \<open>piece\<close> is the branded form of such a constituent.
\<close>

fun brandable :: "stdlib \<Rightarrow> ty \<Rightarrow> bool" where
  "brandable L TAny = False"
| "brandable L TNever = False"
| "brandable L (TUnion ms) = False"
| "brandable L (TPrim PNull) = False"
| "brandable L (TPrim PUndefined) = False"
| "brandable L t = (find_field ''__brand'' (apparent L t) = None)"

definition tag :: "string \<Rightarrow> ty" where
  "tag Name = TObj [Fld ''__brand'' (TLit (LStr Name)) False True]"

definition piece :: "string \<Rightarrow> ty \<Rightarrow> meet list" where
  "piece Name t = (if t = TUnknown then [Whole (tag Name)] else [Both t (tag Name)])"

text \<open>
  The bases on which a brand keeps its token.  A type \<open>X\<close> touches the token \<open>A\<close> when
  \<open>X & "A"\<close> is neither \<open>never\<close> nor \<open>any\<close>.  A constituent of a base carries the token \<open>A\<close>
  when it is not \<open>any\<close>, \<open>null\<close> or \<open>undefined\<close> and, if it is an object type with a property
  named \<open>__brand\<close> of its own, the type of that property touches \<open>A\<close> (as for
  \<open>{ __brand: string }\<close>, and unlike \<open>{ __brand: number }\<close>, whose brand is \<open>never\<close>).
\<close>

definition touches :: "string \<Rightarrow> ty \<Rightarrow> bool" where
  "touches A X =
     (intersection X (TLit (LStr A)) \<noteq> [] \<and> intersection X (TLit (LStr A)) \<noteq> [Whole TAny])"

fun carries :: "string \<Rightarrow> ty \<Rightarrow> bool" where
  "carries A TAny = False"
| "carries A TNever = False"
| "carries A (TUnion ms) = False"
| "carries A (TPrim PNull) = False"
| "carries A (TPrim PUndefined) = False"
| "carries A (TObj fs) =
     list_all (\<lambda>f. touches A (ftype f)) (filter (\<lambda>f. fname f = ''__brand'') fs)"
| "carries A t = True"

text \<open>
  An excerpt of the standard library for closed examples: strings have a readonly
  \<open>length\<close> of type \<open>number\<close>.  The general theorems hold for every library.
\<close>

definition lib_excerpt :: stdlib where
  "lib_excerpt =
     \<lparr>declared = (\<lambda>t. if string_like t then [Fld ''length'' (TPrim PNumber) False True] else []),
      provides = (\<lambda>t g. string_like t \<and> fname g = ''length'' \<and>
                          (ftype g = TPrim PNumber \<or> ftype g = TAny \<or> ftype g = TUnknown))\<rparr>"

section \<open>Properties\<close>

subsection \<open>Unions and assignability\<close>

lemma union_of_Nil [simp]: "union_of [] = TNever"
  by (simp add: union_of_def)

lemma union_of_single: "members t = [t] \<Longrightarrow> union_of [t] = t"
proof (cases t)
  case (TUnion ms)
  assume "members t = [t]"
  with TUnion have "ms = [TUnion ms]" by simp
  then have "size_list size ms = size_list size [TUnion ms]" by simp
  then show ?thesis by simp
qed (auto simp: union_of_def Let_def split: option.splits)

lemma union_of_literal:
  assumes "union_of ts = TLit l" and "lit_base l = Some p"
  shows "TPrim p \<notin> set (concat (map members ts))"
proof -
  let ?ms = "remdups (concat (map members ts))"
  have "filter (\<lambda>t. \<not> subsumed ?ms t) ?ms = [TLit l]"
    using assms(1) by (auto simp: union_of_def Let_def split: if_splits list.splits)
  then have "TLit l \<in> set (filter (\<lambda>t. \<not> subsumed ?ms t) ?ms)" by simp
  then have "\<not> subsumed ?ms (TLit l)" by simp
  with assms(2) show ?thesis by simp
qed

lemma union_of_keeps_prim:
  assumes "TPrim p \<in> set (concat (map members ts))"
  shows "union_of ts = TAny \<or> union_of ts = TUnknown \<or> TPrim p \<in> set (members (union_of ts))"
proof -
  let ?ms = "remdups (concat (map members ts))"
  let ?fs = "filter (\<lambda>t. \<not> subsumed ?ms t) ?ms"
  have mem: "TPrim p \<in> set ?fs" using assms by simp
  show ?thesis
  proof (cases ?fs)
    case Nil
    with mem show ?thesis by simp
  next
    case (Cons t rest)
    show ?thesis
    proof (cases rest)
      case Nil
      with Cons mem have "t = TPrim p" by simp
      with Cons Nil show ?thesis by (auto simp: union_of_def Let_def)
    next
      case (Cons u us)
      with \<open>?fs = t # rest\<close> mem have "TPrim p \<in> set (t # u # us)" by simp
      with Cons \<open>?fs = t # rest\<close> show ?thesis by (auto simp: union_of_def Let_def)
    qed
  qed
qed

lemma assignable_single: "assignable L (single A) (single B) = assignable L A B"
  by (simp add: single_def assignable.simps [of L "TTuple False [Elem A False]"])

lemma assignable_to_unknown [simp]: "assignable L S TUnknown"
  by (simp add: assignable.simps)

lemma assignable_to_any [simp]: "assignable L S TAny"
  by (simp add: assignable.simps)

lemma assignable_from_never [simp]: "assignable L TNever T"
  by (simp add: assignable.simps)

lemma assignable_from_any: "assignable L TAny T = (T \<noteq> TNever)"
  by (simp add: assignable.simps)

lemma assignable_to_never: "assignable L S TNever = (S = TNever)"
  by (simp add: assignable.simps)

text \<open>
  The relation on examples: a string has a \<open>length\<close>, a number has not; width and depth
  subtyping of object types, \<open>readonly\<close> playing no part; function parameters are
  contravariant.
\<close>

lemma assignable_examples:
  "assignable lib_excerpt (TPrim PString) (TObj [Fld ''length'' (TPrim PNumber) False False]) \<and>
   \<not> assignable lib_excerpt (TPrim PNumber) (TObj [Fld ''length'' (TPrim PNumber) False False]) \<and>
   assignable lib_excerpt
     (TObj [Fld ''a'' (TLit (LStr ''x'')) False False, Fld ''b'' (TPrim PNumber) False False])
     (TObj [Fld ''a'' (TPrim PString) False True]) \<and>
   assignable lib_excerpt
     (TFn [TUnion [TPrim PString, TPrim PNumber]] (TLit (LNum 1)))
     (TFn [TPrim PString, TPrim PNumber] (TPrim PNumber)) \<and>
   \<not> assignable lib_excerpt
     (TFn [TPrim PString] (TLit (LNum 1)))
     (TFn [TUnion [TPrim PString, TPrim PNumber]] (TPrim PNumber))"
  by (simp add: assignable.simps lib_excerpt_def weak_mismatch_def apparent_def)

lemma find_field_append_None:
  "(find_field k (xs @ ys) = None) = (find_field k xs = None \<and> find_field k ys = None)"
  by (induction xs) auto

lemma find_field_other: "find_field k fs = None \<Longrightarrow> f \<in> set fs \<Longrightarrow> fname f \<noteq> k"
  by (induction fs) (auto split: if_splits)

subsection \<open>\<open>Curry\<close>\<close>

lemma Curry_chain: "Curry (TFn ps R) = foldr (\<lambda>A link. TFn [A] link) ps (TFn [] R)"
  by (induction ps) simp_all

text \<open>
  C1.  The claim reads: for an n-ary function type, \<open>Curry\<close> is a chain of exactly n unary
  links whose innermost link returns the original return type \<open>R\<close>.  The alias recurses
  until the parameter list is empty and then produces \<open>() => R\<close>, so for a function type
  with parameters the innermost unary link returns the nullary function \<open>() => R\<close>, not
  \<open>R\<close>.  The theorem evaluates the alias at \<open>(a: string) => string\<close> and at the example of
  its own documentation, \<open>(a: string, b: number, c: boolean) => string\<close>, which the
  documentation says curries to \<open>(a: string) => (b: number) => (c: boolean) => string\<close>.
\<close>

theorem Curry_documented_example:
  "Curry (TFn [TPrim PString] (TPrim PString)) = TFn [TPrim PString] (TFn [] (TPrim PString)) \<and>
   Curry (TFn [TPrim PString, TPrim PNumber, TUnion [TLit (LBool True), TLit (LBool False)]]
            (TPrim PString)) =
     TFn [TPrim PString] (TFn [TPrim PNumber]
       (TFn [TUnion [TLit (LBool True), TLit (LBool False)]] (TFn [] (TPrim PString))))"
  by simp

subsection \<open>\<open>DeepPick\<close> and \<open>DeepValue\<close>\<close>

text \<open>
  On a path that resolves, \<open>DeepValue\<close> is the type at the path and \<open>DeepPick\<close> the nested
  record that keeps only the path (the documented examples).
\<close>

lemma DeepValue_DeepPick_resolved:
  "DeepValue lib_excerpt
     (TObj [Fld ''name'' (TPrim PString) False False,
            Fld ''address'' (TObj [Fld ''city'' (TPrim PString) False False]) False False])
     ''address.city'' = TPrim PString \<and>
   DeepPick lib_excerpt
     (TObj [Fld ''name'' (TPrim PString) False False,
            Fld ''address'' (TObj [Fld ''city'' (TPrim PString) False False,
                                   Fld ''zip'' (TPrim PString) False False]) False False])
     ''address.city'' =
     TObj [Fld ''address'' (TObj [Fld ''city'' (TPrim PString) False False]) False False]"
  by (simp add: DeepValue.simps DeepPick.simps read_type_def)

text \<open>
  C2, as stated: for a path with a segment that is not a key of the type reached,
  \<open>DeepPick\<close> yields the empty record and \<open>DeepValue\<close> yields \<open>never\<close>.  For \<open>DeepPick\<close>
  this fails when the missing segment is not the first one: in
  \<open>{ name: string; address: { city: string } }\<close> the path \<open>address.zip\<close> misses \<open>zip\<close>, and
  the result is \<open>{ address: {} }\<close>, which has the field \<open>address\<close>.
\<close>

theorem DeepPick_missing_inner_counterexample:
  "lookup lib_excerpt (TObj [Fld ''city'' (TPrim PString) False False]) ''zip'' = None \<and>
   DeepPick lib_excerpt
     (TObj [Fld ''name'' (TPrim PString) False False,
            Fld ''address'' (TObj [Fld ''city'' (TPrim PString) False False]) False False])
     ''address.zip'' \<noteq> TObj []"
  by (simp add: DeepPick.simps read_type_def)

text \<open>
  C2, amended: for every type \<open>T\<close> and every dot-path \<open>p\<close> with a segment that is not a key of
  the type reached at that point, \<open>DeepValue<T, p>\<close> is \<open>never\<close>, and \<open>DeepPick<T, p>\<close> is the
  empty record nested under the segments that precede the missing one (the empty record
  itself when the first segment is missing).  Both are total functions: neither raises.
\<close>

theorem DeepPick_DeepValue_missing:
  "missing L T (segments p) \<Longrightarrow>
     DeepValue L T p = TNever \<and> DeepPick L T p = nest (resolved L T (segments p)) (TObj [])"
proof (induction p arbitrary: T rule: segments.induct)
  case (1 p)
  show ?case
  proof (cases "split_dot p")
    case None
    with "1.prems" show ?thesis
      by (simp add: segments.simps [of p] DeepValue.simps [of L T p] DeepPick.simps [of L T p]
          split: option.splits)
  next
    case (Some ab)
    obtain a b where ab: "(a, b) = ab" by (cases ab) simp
    have split: "split_dot p = Some (a, b)" using Some ab by simp
    show ?thesis
    proof (cases "lookup L T a")
      case None
      with split show ?thesis
        by (simp add: segments.simps [of p] DeepValue.simps [of L T p] DeepPick.simps [of L T p])
    next
      case look: (Some t)
      with split "1.prems" have "missing L t (segments b)"
        by (simp add: segments.simps [of p])
      then have "DeepValue L t b = TNever \<and>
          DeepPick L t b = nest (resolved L t (segments b)) (TObj [])"
        by (rule "1.IH" [OF Some ab])
      with look split show ?thesis
        by (simp add: segments.simps [of p] DeepValue.simps [of L T p] DeepPick.simps [of L T p])
    qed
  qed
qed

theorem DeepPick_DeepValue_missing_witness:
  "DeepValue lib_excerpt
     (TObj [Fld ''name'' (TPrim PString) False False,
            Fld ''address'' (TObj [Fld ''city'' (TPrim PString) False False]) False False])
     ''address.zip'' = TNever \<and>
   DeepPick lib_excerpt
     (TObj [Fld ''name'' (TPrim PString) False False,
            Fld ''address'' (TObj [Fld ''city'' (TPrim PString) False False]) False False])
     ''address.zip'' = TObj [Fld ''address'' (TObj []) False False]"
  using DeepPick_DeepValue_missing [of lib_excerpt
     "TObj [Fld ''name'' (TPrim PString) False False,
            Fld ''address'' (TObj [Fld ''city'' (TPrim PString) False False]) False False]"
     "''address.zip''"]
  by (simp add: segments.simps read_type_def)

subsection \<open>\<open>TuplePush\<close> and \<open>TuplePop\<close>\<close>

text \<open>
  C3, as stated: \<open>TuplePop<TuplePush<S, x>>\<close> equals \<open>S\<close> for every fixed-arity tuple \<open>S\<close>.
  This fails for a readonly tuple, which the constraint \<open>T extends readonly any[]\<close> admits:
  the spread in \<open>TuplePush\<close> builds a mutable tuple, so from \<open>readonly [string]\<close> the result
  is \<open>[string]\<close>.
\<close>

theorem TuplePop_TuplePush_readonly_counterexample:
  "Option.bind (TuplePush (TTuple True [Elem (TPrim PString) False]) (TPrim PNumber)) TuplePop =
     Some (TTuple False [Elem (TPrim PString) False]) \<and>
   Option.bind (TuplePush (TTuple True [Elem (TPrim PString) False]) (TPrim PNumber)) TuplePop \<noteq>
     Some (TTuple True [Elem (TPrim PString) False])"
  by simp

text \<open>
  C3, amended: for every tuple \<open>S\<close> of fixed arity (all its elements required) and every
  type \<open>x\<close>, \<open>TuplePop<TuplePush<S, x>>\<close> is the mutable tuple with the elements of \<open>S\<close>; it
  equals \<open>S\<close> exactly when \<open>S\<close> is not readonly.
\<close>

theorem TuplePop_TuplePush:
  "list_all (\<lambda>e. \<not> eopt e) es \<Longrightarrow>
     Option.bind (TuplePush (TTuple ro es) x) TuplePop = Some (TTuple False es) \<and>
     (Option.bind (TuplePush (TTuple ro es) x) TuplePop = Some (TTuple ro es)) = (\<not> ro)"
proof -
  assume req: "list_all (\<lambda>e. \<not> eopt e) es"
  have "map required es = es"
    using req by (induction es) (auto, (case_tac a, simp)+)
  then show ?thesis by auto
qed

theorem TuplePop_TuplePush_witness:
  "Option.bind (TuplePush (TTuple False [Elem (TPrim PString) False, Elem (TPrim PNumber) False])
      (TUnion [TLit (LBool True), TLit (LBool False)])) TuplePop =
     Some (TTuple False [Elem (TPrim PString) False, Elem (TPrim PNumber) False])"
  using TuplePop_TuplePush [of "[Elem (TPrim PString) False, Elem (TPrim PNumber) False]" False
      "TUnion [TLit (LBool True), TLit (LBool False)]"]
  by simp

subsection \<open>\<open>RenameKey\<close>\<close>

lemma RenameKey_present:
  "find_field From T = Some f \<Longrightarrow> To \<in> set (map fname T) \<Longrightarrow> RenameKey T From To = Some (TObj T)"
  by (simp add: RenameKey_def)

lemma RenameKey_documented_example:
  "RenameKey [Fld ''firstName'' (TPrim PString) False False, Fld ''age'' (TPrim PNumber) False False]
     ''firstName'' ''name'' =
   Some (TObj [Fld ''age'' (TPrim PNumber) False False, Fld ''name'' (TPrim PString) False False])"
  by (simp add: RenameKey_def Omit_def Pick_def Exclude_def read_type_def)

text \<open>
  C4.  The claim reads: when \<open>to\<close> is not a field of \<open>R\<close>, \<open>RenameKey<R, from, to>\<close> is \<open>R\<close>
  with \<open>from\<close> removed and \<open>to\<close> added with the same value descriptor, optional flag and
  readonly flag.  The alias builds the new property with a mapped type over \<open>To\<close> that copies
  no modifier: renaming the readonly \<open>id\<close> of \<open>{ readonly id: string; age: number }\<close> gives a
  mutable \<open>key\<close>, and renaming the optional \<open>nick\<close> of \<open>{ nick?: string }\<close> gives a required
  \<open>alias\<close> of type \<open>string | undefined\<close>.  The sibling alias \<open>RenameKeys\<close>, on the same
  inputs, keeps both flags.
\<close>

theorem RenameKey_drops_modifiers:
  "RenameKey [Fld ''id'' (TPrim PString) False True, Fld ''age'' (TPrim PNumber) False False]
      ''id'' ''key'' =
     Some (TObj [Fld ''age'' (TPrim PNumber) False False, Fld ''key'' (TPrim PString) False False]) \<and>
   RenameKeys [Fld ''id'' (TPrim PString) False True, Fld ''age'' (TPrim PNumber) False False]
      [(''id'', ''key'')] =
     Some (TObj [Fld ''key'' (TPrim PString) False True, Fld ''age'' (TPrim PNumber) False False]) \<and>
   RenameKey [Fld ''nick'' (TPrim PString) True False] ''nick'' ''alias'' =
     Some (TObj [Fld ''alias'' (TUnion [TPrim PString, TPrim PUndefined]) False False]) \<and>
   RenameKeys [Fld ''nick'' (TPrim PString) True False] [(''nick'', ''alias'')] =
     Some (TObj [Fld ''alias'' (TPrim PString) True False])"
  by (simp add: RenameKey_def RenameKeys_def Omit_def Pick_def Exclude_def read_type_def)

subsection \<open>\<open>DeepPartial\<close> and \<open>DeepReadonly\<close>\<close>

lemma DeepPartial_equations:
  "DeepPartial (TObj fs) = TObj (map (\<lambda>f. Fld (fname f) (DeepPartial (ftype f)) True (fro f)) fs)"
  "DeepPartial (TTuple ro es) = TTuple ro (map (\<lambda>e. Elem (DeepPartial (etype e)) True) es)"
  "DeepPartial (TFn ps r) = TObj []"
  "DeepPartial (TPrim p) = TPrim p"
  "DeepPartial (TLit l) = TLit l"
  "DeepPartial TUnknown = TUnknown"
  "DeepPartial TAny = TAny"
  "DeepPartial TNever = TNever"
  by (subst DeepPartial.simps, simp add: union_of_single)+

lemma DeepReadonly_equations:
  "DeepReadonly (TObj fs) = TObj (map (\<lambda>f. Fld (fname f) (DeepReadonly (ftype f)) (fopt f) True) fs)"
  "DeepReadonly (TTuple ro es) = TTuple True (map (\<lambda>e. Elem (DeepReadonly (etype e)) (eopt e)) es)"
  "DeepReadonly (TFn ps r) = TObj []"
  "DeepReadonly (TPrim p) = TPrim p"
  "DeepReadonly (TLit l) = TLit l"
  "DeepReadonly TUnknown = TUnknown"
  "DeepReadonly TAny = TAny"
  "DeepReadonly TNever = TNever"
  by (subst DeepReadonly.simps, simp add: union_of_single)+

lemma all_optional_members: "all_optional t \<Longrightarrow> m \<in> set (members t) \<Longrightarrow> all_optional m"
  by (cases t) (auto simp: all_optional.simps [of "TUnion _"] list_all_iff)

lemma all_optional_union_of:
  assumes "\<And>t. t \<in> set ts \<Longrightarrow> all_optional t"
  shows "all_optional (union_of ts)"
proof -
  let ?ms = "remdups (concat (map members ts))"
  let ?fs = "filter (\<lambda>t. \<not> subsumed ?ms t) ?ms"
  have mem: "\<And>m. m \<in> set ?fs \<Longrightarrow> all_optional m"
    using assms by (auto dest: all_optional_members)
  show ?thesis
  proof (cases ?fs)
    case Nil
    then show ?thesis by (simp add: union_of_def Let_def all_optional.simps)
  next
    case (Cons t rest)
    show ?thesis
    proof (cases rest)
      case Nil
      with Cons mem have "all_optional t" by simp
      with Cons Nil show ?thesis by (simp add: union_of_def Let_def all_optional.simps [of TAny] all_optional.simps [of TUnknown])
    next
      case (Cons u us)
      with \<open>?fs = t # rest\<close> mem have "list_all all_optional (t # u # us)"
        by (simp add: list_all_iff) 
      with Cons \<open>?fs = t # rest\<close> show ?thesis
        by (simp add: union_of_def Let_def all_optional.simps [of TAny] all_optional.simps [of TUnknown] all_optional.simps [of "TUnion _"])
    qed
  qed
qed

lemma flat_members: "flat T \<Longrightarrow> m \<in> set (members T) \<Longrightarrow> constituent m \<and> flat m"
  by (cases T) (auto simp: flat.simps [of "TUnion _"] list_all_iff)

lemma DeepPartial_all_optional: "flat T \<Longrightarrow> all_optional (DeepPartial T)"
proof (induction T rule: measure_induct_rule [where f = size])
  case (less T)
  let ?body = "\<lambda>t. if t = TAny then TAny
          else if extends_object t then hom_mapped (\<lambda>q. True) (\<lambda>r. r) DeepPartial t else t"
  have body: "all_optional (?body m)" if m: "m \<in> set (members T)" for m
  proof -
    from flat_members [OF less.prems m] have am: "constituent m" and fm: "flat m" by simp_all
    from m have sz: "size m \<le> size T" by (rule size_members)
    show ?thesis
    proof (cases m)
      case (TObj fs)
      have "all_optional (DeepPartial (ftype f))" if "f \<in> set fs" for f
      proof -
        from that have "size (ftype f) < size T" using size_ftype_mem [of f fs] sz TObj by simp
        moreover from that fm TObj have "flat (ftype f)" by (simp add: flat.simps [of "TObj _"] list_all_iff)
        ultimately show ?thesis by (rule less.IH)
      qed
      with TObj show ?thesis by (simp add: all_optional.simps [of "TObj _"] list_all_iff)
    next
      case (TTuple ro es)
      have "all_optional (DeepPartial (etype e))" if "e \<in> set es" for e
      proof -
        from that have "size (etype e) < size T" using size_etype_mem [of e es] sz TTuple by simp
        moreover from that fm TTuple have "flat (etype e)" by (simp add: flat.simps [of "TTuple _ _"] list_all_iff)
        ultimately show ?thesis by (rule less.IH)
      qed
      with TTuple show ?thesis by (simp add: all_optional.simps [of "TTuple _ _"] list_all_iff)
    qed (use am in \<open>simp_all add: all_optional.simps\<close>)
  qed
  show ?case
  proof (subst DeepPartial.simps, rule all_optional_union_of)
    fix t
    assume "t \<in> set (map ?body (members T))"
    then obtain m where "m \<in> set (members T)" and "t = ?body m" by auto
    with body show "all_optional t" by simp
  qed
qed

lemma all_readonly_members: "all_readonly t \<Longrightarrow> m \<in> set (members t) \<Longrightarrow> all_readonly m"
  by (cases t) (auto simp: all_readonly.simps [of "TUnion _"] list_all_iff)

lemma all_readonly_union_of:
  assumes "\<And>t. t \<in> set ts \<Longrightarrow> all_readonly t"
  shows "all_readonly (union_of ts)"
proof -
  let ?ms = "remdups (concat (map members ts))"
  let ?fs = "filter (\<lambda>t. \<not> subsumed ?ms t) ?ms"
  have mem: "\<And>m. m \<in> set ?fs \<Longrightarrow> all_readonly m"
    using assms by (auto dest: all_readonly_members)
  show ?thesis
  proof (cases ?fs)
    case Nil
    then show ?thesis by (simp add: union_of_def Let_def all_readonly.simps)
  next
    case (Cons t rest)
    show ?thesis
    proof (cases rest)
      case Nil
      with Cons mem have "all_readonly t" by simp
      with Cons Nil show ?thesis
        by (simp add: union_of_def Let_def all_readonly.simps [of TAny] all_readonly.simps [of TUnknown])
    next
      case (Cons u us)
      with \<open>?fs = t # rest\<close> mem have "list_all all_readonly (t # u # us)"
        by (simp add: list_all_iff)
      with Cons \<open>?fs = t # rest\<close> show ?thesis
        by (simp add: union_of_def Let_def all_readonly.simps [of TAny]
            all_readonly.simps [of TUnknown] all_readonly.simps [of "TUnion _"])
    qed
  qed
qed

lemma DeepReadonly_all_readonly: "flat T \<Longrightarrow> all_readonly (DeepReadonly T)"
proof (induction T rule: measure_induct_rule [where f = size])
  case (less T)
  let ?body = "\<lambda>t. if t = TAny then TAny
          else if extends_object t then hom_mapped (\<lambda>q. q) (\<lambda>r. True) DeepReadonly t else t"
  have body: "all_readonly (?body m)" if m: "m \<in> set (members T)" for m
  proof -
    from flat_members [OF less.prems m] have am: "constituent m" and fm: "flat m" by simp_all
    from m have sz: "size m \<le> size T" by (rule size_members)
    show ?thesis
    proof (cases m)
      case (TObj fs)
      have "all_readonly (DeepReadonly (ftype f))" if "f \<in> set fs" for f
      proof -
        from that have "size (ftype f) < size T" using size_ftype_mem [of f fs] sz TObj by simp
        moreover from that fm TObj have "flat (ftype f)"
          by (simp add: flat.simps [of "TObj _"] list_all_iff)
        ultimately show ?thesis by (rule less.IH)
      qed
      with TObj show ?thesis by (simp add: all_readonly.simps [of "TObj _"] list_all_iff)
    next
      case (TTuple ro es)
      have "all_readonly (DeepReadonly (etype e))" if "e \<in> set es" for e
      proof -
        from that have "size (etype e) < size T" using size_etype_mem [of e es] sz TTuple by simp
        moreover from that fm TTuple have "flat (etype e)"
          by (simp add: flat.simps [of "TTuple _ _"] list_all_iff)
        ultimately show ?thesis by (rule less.IH)
      qed
      with TTuple show ?thesis by (simp add: all_readonly.simps [of "TTuple _ _"] list_all_iff)
    qed (use am in \<open>simp_all add: all_readonly.simps\<close>)
  qed
  show ?case
  proof (subst DeepReadonly.simps, rule all_readonly_union_of)
    fix t
    assume "t \<in> set (map ?body (members T))"
    then obtain m where "m \<in> set (members T)" and "t = ?body m" by auto
    with body show "all_readonly t" by simp
  qed
qed

lemma DeepPartial_documented_example:
  "DeepPartial
     (TObj [Fld ''name'' (TPrim PString) False False,
            Fld ''address'' (TObj [Fld ''city'' (TPrim PString) False False]) False False]) =
   TObj [Fld ''name'' (TPrim PString) True False,
         Fld ''address'' (TObj [Fld ''city'' (TPrim PString) True False]) True False]"
  by (simp add: DeepPartial_equations)

lemma DeepReadonly_documented_example:
  "DeepReadonly
     (TObj [Fld ''name'' (TPrim PString) False False,
            Fld ''address'' (TObj [Fld ''city'' (TPrim PString) False False]) False False]) =
   TObj [Fld ''name'' (TPrim PString) False True,
         Fld ''address'' (TObj [Fld ''city'' (TPrim PString) False True]) False True]"
  by (simp add: DeepReadonly_equations)

text \<open>
  On a function type the aliases do not stop either: a function type extends \<open>object\<close> and
  has no keys, so the mapped type replaces it by the empty object type.  The doc comments
  speak of properties only and the aliases pass every other leaf through unchanged (the
  branch \<open>: T\<close>), so this is a defect of the aliases; it is recorded here and is no part of
  the statement about them below.
\<close>

lemma Deep_function_erased:
  "DeepPartial (TObj [Fld ''f'' (TFn [] (TPrim PString)) False False]) =
     TObj [Fld ''f'' (TObj []) True False] \<and>
   DeepReadonly (TObj [Fld ''f'' (TFn [] (TPrim PString)) False False]) =
     TObj [Fld ''f'' (TObj []) False True]"
  by (simp add: DeepPartial_equations DeepReadonly_equations)

text \<open>
  C5, as stated: \<open>DeepPartial\<close> and \<open>DeepReadonly\<close> stop at Primitives, Sequences and
  Signatures and leave them unchanged in kind and content.  The aliases recurse into every
  type that extends \<open>object\<close>, and a tuple does: the mapped type over a tuple maps its
  elements.  In a field of tuple type \<open>[{ a: string }]\<close> the record inside the tuple is
  transformed as well: under \<open>DeepPartial\<close> the field becomes \<open>[{ a?: string }?]\<close>, under
  \<open>DeepReadonly\<close> it becomes \<open>readonly [{ readonly a: string }]\<close>.
\<close>

theorem Deep_flags_counterexample:
  "DeepPartial
     (TObj [Fld ''xs'' (TTuple False [Elem (TObj [Fld ''a'' (TPrim PString) False False]) False])
              False False]) =
     TObj [Fld ''xs'' (TTuple False [Elem (TObj [Fld ''a'' (TPrim PString) True False]) True])
             True False] \<and>
   DeepReadonly
     (TObj [Fld ''xs'' (TTuple False [Elem (TObj [Fld ''a'' (TPrim PString) False False]) False])
              False False]) =
     TObj [Fld ''xs'' (TTuple True [Elem (TObj [Fld ''a'' (TPrim PString) False True]) False])
             False True]"
  by (simp add: DeepPartial_equations DeepReadonly_equations)

text \<open>
  C5, amended: for every descriptor \<open>T\<close>, in \<open>DeepPartial<T>\<close> every field of every record,
  at every depth, is optional, and in \<open>DeepReadonly<T>\<close> every field of every record and every
  tuple, at every depth, is readonly.  On a Record the alias sets its flag on each field and
  applies itself to the field's descriptor, leaving the field's name and other flag as they
  are.  It stops at the primitives and the literal types, which it leaves unchanged.  It
  does not stop at a fixed Sequence, which it maps element by element: \<open>DeepPartial\<close> makes
  each element optional, \<open>DeepReadonly\<close> makes the tuple readonly, and both transform the
  elements.
\<close>

theorem Deep_flags:
  "flat T \<Longrightarrow>
     all_optional (DeepPartial T) \<and> all_readonly (DeepReadonly T) \<and>
     DeepPartial (TObj fs) = TObj (map (\<lambda>f. Fld (fname f) (DeepPartial (ftype f)) True (fro f)) fs) \<and>
     DeepReadonly (TObj fs) = TObj (map (\<lambda>f. Fld (fname f) (DeepReadonly (ftype f)) (fopt f) True) fs) \<and>
     DeepPartial (TPrim p) = TPrim p \<and> DeepReadonly (TPrim p) = TPrim p \<and>
     DeepPartial (TLit l) = TLit l \<and> DeepReadonly (TLit l) = TLit l \<and>
     DeepPartial (TTuple ro es) = TTuple ro (map (\<lambda>e. Elem (DeepPartial (etype e)) True) es) \<and>
     DeepReadonly (TTuple ro es) = TTuple True (map (\<lambda>e. Elem (DeepReadonly (etype e)) (eopt e)) es)"
  by (simp add: DeepPartial_all_optional DeepReadonly_all_readonly DeepPartial_equations
      DeepReadonly_equations)

theorem Deep_flags_witness:
  "all_optional (DeepPartial (TObj [Fld ''name'' (TPrim PString) False False,
      Fld ''address'' (TObj [Fld ''city'' (TPrim PString) False False]) False False])) \<and>
   all_readonly (DeepReadonly (TObj [Fld ''name'' (TPrim PString) False False,
      Fld ''address'' (TObj [Fld ''city'' (TPrim PString) False False]) False False])) \<and>
   DeepPartial (TObj [Fld ''name'' (TPrim PString) False False,
      Fld ''address'' (TObj [Fld ''city'' (TPrim PString) False False]) False False]) =
     TObj [Fld ''name'' (TPrim PString) True False,
       Fld ''address'' (TObj [Fld ''city'' (TPrim PString) True False]) True False] \<and>
   DeepReadonly (TObj [Fld ''name'' (TPrim PString) False False,
      Fld ''address'' (TObj [Fld ''city'' (TPrim PString) False False]) False False]) =
     TObj [Fld ''name'' (TPrim PString) False True,
       Fld ''address'' (TObj [Fld ''city'' (TPrim PString) False True]) False True]"
  using Deep_flags [of
      "TObj [Fld ''name'' (TPrim PString) False False,
         Fld ''address'' (TObj [Fld ''city'' (TPrim PString) False False]) False False]"
      "[Fld ''name'' (TPrim PString) False False,
         Fld ''address'' (TObj [Fld ''city'' (TPrim PString) False False]) False False]"
      PString "LStr ''x''" False "[]"]
  by (simp add: flat.simps DeepPartial_equations DeepReadonly_equations)

subsection \<open>Guards\<close>

lemma IsAny_string: "IsAny L (TPrim PString) = TFalse"
  by (simp add: IsAny_def intersection.simps to_meets_def assignable.simps)

lemma IsAny_any: "IsAny L TAny = TTrue"
  by (simp add: IsAny_def intersection.simps to_meets_def assignable.simps)

lemma IsUnknown_unknown_any: "IsUnknown L TUnknown = TTrue \<and> IsUnknown L TAny = TFalse"
  by (simp add: IsUnknown_def IsAny_def assignable_single intersection.simps to_meets_def)
    (simp add: TTrue_def TFalse_def assignable.simps)

text \<open>
  C6.  The claim reads: \<open>IsUnknown<T>\<close> is true for \<open>unknown\<close> only and false for every
  other type, such as \<open>string\<close>.  The alias tests \<open>[T] extends [unknown]\<close>, which holds for
  every \<open>T\<close>, and then only excludes \<open>any\<close>; at \<open>string\<close> it yields \<open>true\<close>, against
  its documentation (\<open>IsUnknown<string>\<close> is documented as \<open>false\<close>).
\<close>

theorem IsUnknown_string: "IsUnknown L (TPrim PString) = TTrue"
  by (simp add: IsUnknown_def assignable_single IsAny_string) (simp add: assignable.simps TFalse_def)

lemma IsUnion_string: "IsUnion L (TPrim PString) = TFalse"
  by (simp add: IsUnion_def assignable_single union_of_def TTrue_def TFalse_def)
    (simp add: assignable.simps)

text \<open>
  C7.  The claim reads: \<open>IsUnion<T>\<close> is true exactly when \<open>T\<close> has more than one member,
  and false for a single member and for \<open>never\<close>.  The alias distributes over the members
  \<open>U\<close> of \<open>T\<close> and tests \<open>[U] extends [T]\<close>, which every member passes; at
  \<open>string | number\<close> it yields \<open>false\<close> (documented: \<open>true\<close>), and at \<open>never\<close> it
  yields \<open>never\<close>.
\<close>

theorem IsUnion_string_number:
  "IsUnion L (TUnion [TPrim PString, TPrim PNumber]) = TFalse \<and> IsUnion L TNever = TNever"
  by (simp add: IsUnion_def assignable_single union_of_def TTrue_def TFalse_def)
    (simp add: assignable.simps)

lemma IsExact_documented_examples:
  "IsExact L (TPrim PString) (TPrim PString) = TTrue \<and>
   IsExact L (TUnion [TPrim PString, TPrim PUndefined]) (TPrim PString) = TFalse"
  by (simp add: IsExact_def assignable_single) (simp add: assignable.simps)

text \<open>
  C9, as stated: \<open>IsExact<any, B>\<close> and \<open>IsExact<B, any>\<close> are true for every type \<open>B\<close>.
  This fails at \<open>B = never\<close>: \<open>any\<close> is assignable to every type except \<open>never\<close>.
\<close>

theorem IsExact_any_never_counterexample:
  "IsExact lib_excerpt TAny TNever = TFalse \<and> IsExact lib_excerpt TNever TAny = TFalse"
  by (simp add: IsExact_def assignable_single assignable_from_any assignable_to_never)

text \<open>
  C9, amended: for every type \<open>B\<close> other than \<open>never\<close>, \<open>IsExact<any, B>\<close> and
  \<open>IsExact<B, any>\<close> are both true, so the guard does not tell \<open>any\<close> from any such type.
\<close>

theorem IsExact_any: "B \<noteq> TNever \<Longrightarrow> IsExact L TAny B = TTrue \<and> IsExact L B TAny = TTrue"
  by (simp add: IsExact_def assignable_single assignable_from_any)

theorem IsExact_any_witness:
  "IsExact lib_excerpt TAny (TPrim PString) = TTrue \<and>
   IsExact lib_excerpt (TPrim PString) TAny = TTrue"
  using IsExact_any [of "TPrim PString" lib_excerpt] by simp

subsection \<open>\<open>Brand\<close>\<close>

lemma Brand_tag: "Brand T Name = intersection T (tag Name)"
  by (simp add: Brand_def tag_def)

lemma members_tag: "members (tag Name) = [tag Name]"
  by (simp add: tag_def)

lemma meet_atom_tag:
  assumes "brandable L t"
  shows "meet_atom intersection t (tag Name) = piece Name t"
proof (cases t)
  case (TObj fs)
  with assms have "find_field ''__brand'' fs = None"
    by (simp add: apparent_def find_field_append_None)
  then have "\<And>f. f \<in> set fs \<Longrightarrow> fname f \<noteq> ''__brand''"
    by (rule find_field_other)
  then have "\<And>f. f \<in> set fs \<Longrightarrow>
      find_field (fname f) [Fld ''__brand'' (TLit (LStr Name)) False True] = None"
    by fastforce
  then have "\<not> clash intersection fs [Fld ''__brand'' (TLit (LStr Name)) False True]"
    by (simp add: clash_def list_ex_iff)
  with TObj show ?thesis by (simp add: piece_def tag_def)
next
  case (TPrim p)
  with assms show ?thesis by (cases p) (simp_all add: piece_def tag_def)
qed (use assms in \<open>simp_all add: piece_def tag_def\<close>)

lemma tag_not_assignable: "A \<noteq> B \<Longrightarrow> \<not> assignable L (tag A) (tag B)"
  by (simp add: tag_def assignable.simps [of L "TObj _"] weak_mismatch_def)
    (simp add: assignable.simps)

lemma brandable_no_brand:
  assumes "brandable L t"
  shows "find_field ''__brand'' (apparent L t) = None"
proof (cases t)
  case (TPrim p)
  with assms show ?thesis by (cases p) simp_all
qed (use assms in simp_all)

lemma brandless_not_assignable:
  assumes "brandable L t"
  shows "\<not> assignable L t (tag B)"
proof -
  from brandable_no_brand [OF assms]
  have own: "find_field ''__brand'' (own_fields t) = None"
    and lib: "find_field ''__brand'' (declared L t) = None"
    by (simp_all add: apparent_def find_field_append_None)
  show ?thesis
  proof (cases t)
    case (TPrim p)
    with own lib show ?thesis
      by (simp add: tag_def assignable.simps [of L "TPrim p"] weak_mismatch_def)
  next
    case (TLit l)
    with own lib show ?thesis
      by (simp add: tag_def assignable.simps [of L "TLit l"] weak_mismatch_def)
  next
    case (TObj fs)
    with own lib show ?thesis
      by (simp add: tag_def assignable.simps [of L "TObj fs"] weak_mismatch_def)
  next
    case (TTuple ro es)
    with own lib show ?thesis
      by (simp add: tag_def assignable.simps [of L "TTuple ro es"] weak_mismatch_def)
  next
    case (TFn ps r)
    with own lib show ?thesis
      by (simp add: tag_def assignable.simps [of L "TFn ps r"] weak_mismatch_def)
  qed (use assms in \<open>simp_all add: tag_def assignable.simps [of L TUnknown]\<close>)
qed

lemma from_piece:
  assumes "A \<noteq> B" "brandable L t" "s \<in> set (piece A t)"
  shows "\<not> from_meet L s (tag B)"
proof (cases "t = TUnknown")
  case True
  with assms show ?thesis by (simp add: piece_def tag_not_assignable)
next
  case False
  have none: "find_field ''__brand'' (apparent L t) = None"
    using assms(2) by (rule brandable_no_brand)
  have some: "find_field ''__brand'' (apparent L (tag A)) =
      Some (Fld ''__brand'' (TLit (LStr A)) False True)"
    by (simp add: apparent_def tag_def)
  have side: "\<not> side_ok L (tag A) (Fld ''__brand'' (TLit (LStr A)) False True)
                  (Fld ''__brand'' (TLit (LStr B)) False True)"
    using assms(1) by (simp add: side_ok_def tag_def prop_ok_def assignable.simps)
  from False assms(3) have s: "s = Both t (tag A)" by (simp add: piece_def)
  show ?thesis
    unfolding s
    using none some [unfolded tag_def] side [unfolded tag_def]
      brandless_not_assignable [OF assms(2), of B, unfolded tag_def]
      tag_not_assignable [OF assms(1), of L, unfolded tag_def]
    by (simp add: tag_def from_meet.simps)
qed

lemma dec_digits: "set (dec n) \<subseteq> set ''0123456789''"
proof (induction n rule: dec.induct)
  case (1 n)
  have "''0123456789'' ! k \<in> set ''0123456789''" if "k < 10" for k
    using that by (intro nth_mem) simp
  with 1 show ?case by (subst dec.simps) auto
qed

lemma dec_not_brand: "dec n \<noteq> ''__brand''"
proof
  assume "dec n = ''__brand''"
  then have "CHR ''_'' \<in> set (dec n)" by simp
  with dec_digits [of n] show False by auto
qed

lemma positional_names: "f \<in> set (positional ro i es) \<Longrightarrow> \<exists>j. fname f = dec j"
  by (induction es arbitrary: i) auto

lemma find_field_None_iff: "(find_field k fs = None) = (k \<notin> fname ` set fs)"
  by (induction fs) auto

lemma find_field_Some: "find_field k fs = Some f \<Longrightarrow> fname f = k \<and> f \<in> set fs"
  by (induction fs) (auto split: if_splits)

lemma find_field_append_Some: "find_field k xs = Some f \<Longrightarrow> find_field k (xs @ ys) = Some f"
  by (induction xs) auto

lemma tuple_no_brand: "find_field ''__brand'' (tuple_fields ro es) = None"
proof -
  have "''__brand'' \<notin> fname ` set (positional ro 0 es)"
  proof
    assume "''__brand'' \<in> fname ` set (positional ro 0 es)"
    then obtain f where f: "f \<in> set (positional ro 0 es)" and eq: "''__brand'' = fname f"
      by (rule imageE)
    from positional_names [OF f] obtain j where "fname f = dec j" ..
    with eq have "dec j = ''__brand''" by (simp only:)
    with dec_not_brand [of j] show False ..
  qed
  then show ?thesis by (simp add: find_field_None_iff tuple_fields_def)
qed

lemma touches_facts:
  assumes "A \<noteq> B" "flat X" "touches A X"
  shows "\<not> assignable L X (TLit (LStr B))"
    and "\<exists>m \<in> set (intersection X (TLit (LStr A))). \<not> from_meet L m (TLit (LStr B))"
proof -
  let ?atoms = "concat (map (\<lambda>a. meet_atom intersection a (TLit (LStr A))) (members X))"
  have int: "intersection X (TLit (LStr A)) =
      (if Whole TAny \<in> set ?atoms then [Whole TAny] else remdups ?atoms)"
    by (simp add: intersection.simps [of X "TLit (LStr A)"] Let_def)
  from assms(3) have nw: "Whole TAny \<notin> set ?atoms" and ne: "?atoms \<noteq> []"
    unfolding touches_def int by (auto split: if_splits)
  from ne have "set ?atoms \<noteq> {}" by (simp only: set_empty not_False_eq_True)
  then obtain m where m: "m \<in> set ?atoms" by (meson ex_in_conv)
  then obtain x where x: "x \<in> set (members X)"
    and mx: "m \<in> set (meet_atom intersection x (TLit (LStr A)))" by auto
  from flat_members [OF assms(2) x] have cx: "constituent x" by simp
  have xa: "x \<noteq> TAny"
  proof
    assume "x = TAny"
    with x have "Whole TAny \<in> set ?atoms" by force
    with nw show False by simp
  qed
  note asg = assignable.simps [of L _ "TLit (LStr B)"]
  note frm = from_meet.simps(2) [of L _ _ "TLit (LStr B)"]
  have key: "\<not> from_meet L m (TLit (LStr B)) \<and> \<not> assignable L x (TLit (LStr B))"
  proof (cases x)
    case (TPrim p)
    with mx assms(1) show ?thesis
      by (cases p) (auto simp: asg split: if_splits)
  next
    case (TLit l)
    with mx assms(1) show ?thesis by (auto simp: asg split: if_splits)
  next
    case (TObj gs)
    with mx assms(1) show ?thesis
      by (auto simp: asg frm split: if_splits)
  next
    case (TTuple ro es)
    with mx assms(1) show ?thesis by (auto simp: asg frm)
  next
    case (TFn ps r)
    with mx assms(1) show ?thesis by (auto simp: asg frm)
  next
    case TUnknown
    with mx assms(1) show ?thesis by (auto simp: asg)
  qed (use cx xa in simp_all)
  from m nw key show "\<exists>m \<in> set (intersection X (TLit (LStr A))). \<not> from_meet L m (TLit (LStr B))"
    unfolding int by auto
  show "\<not> assignable L X (TLit (LStr B))"
  proof (cases X)
    case (TUnion ms)
    with x key show ?thesis by (auto simp: assignable.simps [of L "TUnion ms"] list_all_iff)
  qed (use x key in auto)
qed

lemma record_piece:
  assumes "A \<noteq> B" "flat (TObj fs)" "carries A (TObj fs)" "find_field ''__brand'' fs = Some f"
  shows "meet_atom intersection (TObj fs) (tag A) = [Both (TObj fs) (tag A)]"
    and "\<not> from_meet L (Both (TObj fs) (tag A)) (tag B)"
proof -
  from find_field_Some [OF assms(4)] have f: "fname f = ''__brand''" "f \<in> set fs" by simp_all
  from assms(3) have all: "\<And>g. g \<in> set fs \<Longrightarrow> fname g = ''__brand'' \<Longrightarrow> touches A (ftype g)"
    by (simp add: list_all_iff)
  from all f have tf: "touches A (ftype f)" by simp
  from assms(2) f have ff: "flat (ftype f)" by (simp add: flat.simps [of "TObj fs"] list_all_iff)
  have "\<not> clash intersection fs [Fld ''__brand'' (TLit (LStr A)) False True]"
    using all by (auto simp: clash_def list_ex_iff touches_def split: option.splits if_splits)
  then show "meet_atom intersection (TObj fs) (tag A) = [Both (TObj fs) (tag A)]"
    by (simp add: tag_def)
  have na: "\<not> assignable L (TObj fs) (TObj [Fld ''__brand'' (TLit (LStr B)) False True])"
    using assms(4) touches_facts(1) [OF assms(1) ff tf, of L]
    by (simp add: assignable.simps [of L "TObj fs"] weak_mismatch_def)
  have nb: "\<not> assignable L (TObj [Fld ''__brand'' (TLit (LStr A)) False True])
      (TObj [Fld ''__brand'' (TLit (LStr B)) False True])"
    using tag_not_assignable [OF assms(1), of L] by (simp add: tag_def)
  have fa: "find_field ''__brand'' (apparent L (TObj fs)) = Some f"
    using assms(4) by (simp add: apparent_def find_field_append_Some)
  have fb: "find_field ''__brand'' (apparent L (TObj [Fld ''__brand'' (TLit (LStr A)) False True])) =
      Some (Fld ''__brand'' (TLit (LStr A)) False True)"
    by (simp add: apparent_def)
  have nl: "\<not> list_all (\<lambda>m. from_meet L m (TLit (LStr B))) (intersection (ftype f) (TLit (LStr A)))"
    using touches_facts(2) [OF assms(1) ff tf, of L] by (auto simp: list_all_iff)
  show "\<not> from_meet L (Both (TObj fs) (tag A)) (tag B)"
    using na nb fa fb nl by (simp add: tag_def from_meet.simps)
qed

lemma carried_piece:
  assumes "A \<noteq> B" and lib: "\<And>t. find_field ''__brand'' (declared L t) = None"
    and "carries A t" "flat t"
  shows "\<exists>s. meet_atom intersection t (tag A) = [s] \<and> \<not> from_meet L s (tag B)"
proof (cases "find_field ''__brand'' (own_fields t)")
  case None
  have "brandable L t"
  proof (cases t)
    case (TPrim p)
    with assms(3) None lib show ?thesis by (cases p) (simp_all add: apparent_def find_field_append_None)
  qed (use assms(3) None lib in \<open>simp_all add: apparent_def find_field_append_None\<close>)
  then have "meet_atom intersection t (tag A) = piece A t"
    and "\<And>s. s \<in> set (piece A t) \<Longrightarrow> \<not> from_meet L s (tag B)"
    using from_piece [OF assms(1)] by (simp_all add: meet_atom_tag)
  then show ?thesis by (auto simp: piece_def)
next
  case (Some f)
  then obtain fs where t: "t = TObj fs"
    by (cases t) (simp_all add: tuple_no_brand)
  with Some have "find_field ''__brand'' fs = Some f" by simp
  from record_piece(1) [OF assms(1) assms(4) [unfolded t] assms(3) [unfolded t] this]
    record_piece(2) [OF assms(1) assms(4) [unfolded t] assms(3) [unfolded t] this, of L]
  show ?thesis by (simp add: t)
qed

lemma tag_piece_form:
  "m \<in> set (meet_atom intersection u (tag B)) \<Longrightarrow> u \<noteq> TAny \<Longrightarrow>
     m = Whole (tag B) \<or> (\<exists>v. m = Both v (tag B))"
proof (cases u)
  case (TPrim p)
  assume "m \<in> set (meet_atom intersection u (tag B))"
  with TPrim show ?thesis by (cases p) (auto simp: tag_def split: if_splits)
qed (auto simp: tag_def split: if_splits)

lemma Brand_set:
  assumes "TAny \<notin> set (members T)"
  shows "set (Brand T A) = (\<Union>t \<in> set (members T). set (meet_atom intersection t (tag A)))"
proof -
  let ?atoms = "concat (map (\<lambda>a. meet_atom intersection a (tag A)) (members T))"
  have "Whole TAny \<notin> set (meet_atom intersection t (tag A))" if "t \<in> set (members T)" for t
  proof -
    from that assms have "t \<noteq> TAny" by auto
    then show ?thesis using tag_piece_form [of "Whole TAny" t A] by (auto simp: tag_def)
  qed
  then have "Whole TAny \<notin> set ?atoms" by auto
  then show ?thesis
    by (simp add: Brand_tag intersection.simps [of T "tag A"] Let_def members_tag)
qed

lemma brand_not_compatible:
  assumes "A \<noteq> B" and lib: "\<And>t. find_field ''__brand'' (declared L t) = None"
    and "flat T" "TAny \<notin> set (members T)" "list_ex (carries A) (members T)"
    and "TAny \<notin> set (members S)"
  shows "\<not> compatible L (Brand T A) (Brand S B)"
proof
  assume c: "compatible L (Brand T A) (Brand S B)"
  from assms(5) obtain t where t: "t \<in> set (members T)" and ct: "carries A t"
    by (auto simp: list_ex_iff)
  from flat_members [OF assms(3) t] have "flat t" by simp
  from carried_piece [OF assms(1) lib ct this]
  obtain s where s: "meet_atom intersection t (tag A) = [s]" and ns: "\<not> from_meet L s (tag B)"
    by blast
  from s have "s \<in> set (meet_atom intersection t (tag A))" by simp
  with t have "s \<in> set (Brand T A)" by (auto simp: Brand_set [OF assms(4)])
  with c obtain m where m: "m \<in> set (Brand S B)" and ok: "meet_to_meet L s m"
    by (auto simp: compatible_def list_all_iff list_ex_iff)
  from m obtain u where u: "u \<in> set (members S)"
    and mu: "m \<in> set (meet_atom intersection u (tag B))"
    by (auto simp: Brand_set [OF assms(6)])
  from u assms(6) have "u \<noteq> TAny" by auto
  from tag_piece_form [OF mu this] ok have "from_meet L s (tag B)" by auto
  with ns show False by simp
qed

text \<open>A branded type is assignable to itself.\<close>

lemma Brand_same_token:
  "compatible lib_excerpt (Brand (TPrim PString) ''UserId'') (Brand (TPrim PString) ''UserId'')"
  by (simp add: compatible_def Brand_def intersection.simps from_meet.simps assignable.simps
      apparent_def lib_excerpt_def weak_mismatch_def)

text \<open>
  Bases without a constituent that carries the token do not separate: for \<open>any\<close> the brand
  is \<open>any\<close>; for \<open>null\<close> and for \<open>{ __brand: number }\<close> it is \<open>never\<close>; for
  \<open>{ __brand: any }\<close> the property stays \<open>any\<close>; and \<open>{ __brand: "A" }\<close> carries \<open>A\<close> but not
  \<open>B\<close>, so its brand with \<open>B\<close> is \<open>never\<close>.
\<close>

lemma Brand_excluded_bases:
  "compatible lib_excerpt (Brand TAny ''A'') (Brand TAny ''B'') \<and>
   compatible lib_excerpt (Brand (TPrim PNull) ''A'') (Brand (TPrim PNull) ''B'') \<and>
   compatible lib_excerpt (Brand (TObj [Fld ''__brand'' (TPrim PNumber) False False]) ''A'')
     (Brand (TObj [Fld ''__brand'' (TPrim PNumber) False False]) ''B'') \<and>
   compatible lib_excerpt (Brand (TObj [Fld ''__brand'' TAny False False]) ''A'')
     (Brand (TObj [Fld ''__brand'' TAny False False]) ''B'') \<and>
   compatible lib_excerpt (Brand (TObj [Fld ''__brand'' (TLit (LStr ''A'')) False False]) ''B'')
     (Brand (TObj [Fld ''__brand'' (TLit (LStr ''A'')) False False]) ''A'')"
  by (simp add: compatible_def Brand_def intersection.simps from_meet.simps assignable.simps
      apparent_def lib_excerpt_def weak_mismatch_def clash_def)

text \<open>
  C8, as stated: for every base type \<open>T\<close> and distinct tokens \<open>A\<close> and \<open>B\<close>, \<open>Brand<T, A>\<close>
  and \<open>Brand<T, B>\<close> are not assignable to each other, and two branded types are compatible
  only if both base and token match exactly.  The first part fails at \<open>T = never\<close>:
  \<open>never & { readonly __brand: A }\<close> is \<open>never\<close> for every token, and \<open>never\<close> is assignable
  to \<open>never\<close>.  The second part fails for the base: with the same token, \<open>Brand<"a", "X">\<close>
  is assignable to \<open>Brand<string, "X">\<close>, and \<open>Brand<string | null, "X">\<close> and
  \<open>Brand<string, "X">\<close> are assignable to each other, although the bases differ.
\<close>

theorem Brand_compatible_counterexample:
  "compatible lib_excerpt (Brand TNever ''A'') (Brand TNever ''B'') \<and>
   compatible lib_excerpt (Brand TNever ''B'') (Brand TNever ''A'') \<and>
   compatible lib_excerpt (Brand (TLit (LStr ''a'')) ''X'') (Brand (TPrim PString) ''X'') \<and>
   compatible lib_excerpt (Brand (TUnion [TPrim PString, TPrim PNull]) ''X'')
     (Brand (TPrim PString) ''X'') \<and>
   compatible lib_excerpt (Brand (TPrim PString) ''X'')
     (Brand (TUnion [TPrim PString, TPrim PNull]) ''X'')"
  by (simp add: compatible_def Brand_def intersection.simps from_meet.simps assignable.simps
      apparent_def lib_excerpt_def weak_mismatch_def)

text \<open>
  C8, amended: let \<open>A\<close> and \<open>B\<close> be distinct tokens, and let the standard library declare no
  member named \<open>__brand\<close>.  For all bases \<open>T\<close> and \<open>S\<close> other than \<open>any\<close>, where \<open>T\<close> has a
  constituent that carries \<open>A\<close> and \<open>S\<close> one that carries \<open>B\<close> (a constituent other than
  \<open>null\<close> and \<open>undefined\<close> whose own \<open>__brand\<close> property, if it has one, has a type that
  touches the token), \<open>Brand<T, A>\<close> is not assignable to \<open>Brand<S, B>\<close> nor \<open>Brand<S, B>\<close>
  to \<open>Brand<T, A>\<close>.  With \<open>S = T\<close>: \<open>Brand<T, A>\<close> and \<open>Brand<T, B>\<close> are not assignable to
  each other for every base that carries both tokens, which leaves out only bases such as
  \<open>never\<close>, \<open>any\<close>, \<open>null\<close>, \<open>undefined\<close> and \<open>{ __brand: number }\<close>.  So two branded types
  are compatible only if their tokens match; their bases need not match exactly.
\<close>

theorem Brands_incompatible:
  assumes "A \<noteq> B" and "\<And>t. find_field ''__brand'' (declared L t) = None"
    and "flat T" "TAny \<notin> set (members T)" "list_ex (carries A) (members T)"
    and "flat S" "TAny \<notin> set (members S)" "list_ex (carries B) (members S)"
  shows "\<not> compatible L (Brand T A) (Brand S B) \<and> \<not> compatible L (Brand S B) (Brand T A)"
  using brand_not_compatible [OF assms(1) assms(2) assms(3) assms(4) assms(5) assms(7)]
    brand_not_compatible [OF assms(1) [symmetric] assms(2) assms(6) assms(7) assms(8) assms(4)]
  by simp


theorem Brands_incompatible_witness:
  "(\<not> compatible lib_excerpt (Brand (TPrim PNumber) ''UserId'')
        (Brand (TPrim PNumber) ''ProductId'') \<and>
    \<not> compatible lib_excerpt (Brand (TPrim PNumber) ''ProductId'')
        (Brand (TPrim PNumber) ''UserId'')) \<and>
   (\<not> compatible lib_excerpt (Brand (TUnion [TPrim PString, TPrim PNull]) ''A'')
        (Brand (TUnion [TPrim PString, TPrim PNull]) ''B'') \<and>
    \<not> compatible lib_excerpt (Brand (TUnion [TPrim PString, TPrim PNull]) ''B'')
        (Brand (TUnion [TPrim PString, TPrim PNull]) ''A'')) \<and>
   (\<not> compatible lib_excerpt (Brand (TObj [Fld ''__brand'' (TPrim PString) False False]) ''A'')
        (Brand (TObj [Fld ''__brand'' (TPrim PString) False False]) ''B'') \<and>
    \<not> compatible lib_excerpt (Brand (TObj [Fld ''__brand'' (TPrim PString) False False]) ''B'')
        (Brand (TObj [Fld ''__brand'' (TPrim PString) False False]) ''A''))"
  using Brands_incompatible [of "''UserId''" "''ProductId''" lib_excerpt "TPrim PNumber"
      "TPrim PNumber"]
    Brands_incompatible [of "''A''" "''B''" lib_excerpt "TUnion [TPrim PString, TPrim PNull]"
      "TUnion [TPrim PString, TPrim PNull]"]
    Brands_incompatible [of "''A''" "''B''" lib_excerpt
      "TObj [Fld ''__brand'' (TPrim PString) False False]"
      "TObj [Fld ''__brand'' (TPrim PString) False False]"]
  by (simp add: lib_excerpt_def flat.simps touches_def intersection.simps)

subsection \<open>\<open>DeepKeys\<close> and \<open>ObjectPaths\<close>\<close>

lemma DeepKeys_name:
  "DeepKeys L (TObj [Fld ''name'' (TPrim PString) False False]) [] = Some (TLit (LStr ''name''))"
  by (simp add: DeepKeys.simps read_type_def join_path_def union_of_def)

lemma ObjectPaths_name:
  "ObjectPaths L (TObj [Fld ''name'' (TPrim PString) False False]) [] =
     Some (union_of [union_of [TLit (LStr ''name''), values_of L (TPrim PString)]])"
  by (simp add: ObjectPaths.simps [of L "TObj _"] ObjectPaths.simps [of L "TPrim _"]
      read_type_def join_path_def)

text \<open>
  The example of both doc comments, \<open>{ name: string; address: { city: string } }\<close>, with the
  excerpt of the standard library: \<open>DeepKeys\<close> gives the three documented paths,
  \<open>ObjectPaths\<close> gives \<open>string | number\<close>.
\<close>

lemma Paths_documented_example:
  "DeepKeys lib_excerpt
     (TObj [Fld ''name'' (TPrim PString) False False,
            Fld ''address'' (TObj [Fld ''city'' (TPrim PString) False False]) False False]) [] =
     Some (TUnion [TLit (LStr ''name''), TLit (LStr ''address''), TLit (LStr ''address.city'')]) \<and>
   ObjectPaths lib_excerpt
     (TObj [Fld ''name'' (TPrim PString) False False,
            Fld ''address'' (TObj [Fld ''city'' (TPrim PString) False False]) False False]) [] =
     Some (TUnion [TPrim PString, TPrim PNumber])"
  by (simp add: DeepKeys.simps ObjectPaths.simps read_type_def join_path_def union_of_def
      values_of_def lib_excerpt_def)

text \<open>
  C10.  The claim reads: \<open>DeepKeys<R>\<close> and \<open>ObjectPaths<R>\<close> are the same set of dot-paths
  for every record type \<open>R\<close>, as the documentation of both promises (the same example, the
  same result).  \<open>DeepKeys\<close> descends only into a field whose type extends \<open>object\<close>;
  \<open>ObjectPaths\<close> descends into every field, and at a field of type \<open>string\<close> the mapped type
  over \<open>string\<close> is \<open>string\<close> itself, indexed by all its keys.  At \<open>{ name: string }\<close>,
  whatever the standard library declares for strings, \<open>DeepKeys\<close> is \<open>"name"\<close> and
  \<open>ObjectPaths\<close> is not: it contains \<open>string\<close>.
\<close>

theorem ObjectPaths_differs_from_DeepKeys:
  "DeepKeys L (TObj [Fld ''name'' (TPrim PString) False False]) [] = Some (TLit (LStr ''name'')) \<and>
   ObjectPaths L (TObj [Fld ''name'' (TPrim PString) False False]) [] \<noteq> Some (TLit (LStr ''name''))"
proof -
  let ?V = "values_of L (TPrim PString)"
  let ?inner = "union_of [TLit (LStr ''name''), ?V]"
  have V: "?V = TAny \<or> ?V = TUnknown \<or> TPrim PString \<in> set (members ?V)"
    unfolding values_of_def
    using union_of_keeps_prim [of PString "TPrim PString # map read_type (declared L (TPrim PString))"]
    by simp
  have inner: "?inner = TAny \<or> ?inner = TUnknown \<or> TPrim PString \<in> set (members ?inner)"
  proof -
    from V consider "?V = TAny" | "?V = TUnknown" | "TPrim PString \<in> set (members ?V)" by blast
    then show ?thesis
    proof cases
      case 1
      then show ?thesis by (simp add: union_of_def)
    next
      case 2
      then show ?thesis by (simp add: union_of_def)
    next
      case 3
      then show ?thesis
        using union_of_keeps_prim [of PString "[TLit (LStr ''name''), ?V]"] by simp
    qed
  qed
  have "union_of [?inner] \<noteq> TLit (LStr ''name'')"
  proof
    assume eq: "union_of [?inner] = TLit (LStr ''name'')"
    then have no: "TPrim PString \<notin> set (members ?inner)"
      using union_of_literal [of "[?inner]" "LStr ''name''" PString] by simp
    from inner no have "?inner = TAny \<or> ?inner = TUnknown" by blast
    then have "union_of [?inner] = TAny \<or> union_of [?inner] = TUnknown"
      by (auto simp: union_of_single)
    with eq show False by simp
  qed
  then show ?thesis by (simp add: DeepKeys_name ObjectPaths_name)
qed

end
